theory Spec2Isabelle
  imports Complex_Main "HOL-Library.Sublist"
begin

section \<open>JavaScript values\<close>

text \<open>
  \<open>DataPicker\<close> wraps a value of TypeScript type \<open>unknown\<close>. The values modelled are
  the ones the getters distinguish: \<open>undefined\<close>, \<open>null\<close>, booleans, numbers, strings,
  \<open>Date\<close> objects, arrays and plain objects.

  A JavaScript number is a finite value, \<open>NaN\<close> or one of the two infinities. Finite
  values are kept as exact rationals: the getters only ask whether a number is finite,
  whether it is \<open>> 0\<close> and whether it is falsy, and on these questions \<open>-0\<close> and \<open>+0\<close>
  agree, so one zero stands for both. Rounding to a double and overflow to an infinity
  are not part of the model.
\<close>

datatype number = Finite rat | NaN | PosInfinity | NegInfinity

text \<open>A \<open>Date\<close> object is its time value, in milliseconds since the epoch (\<open>NaN\<close> for
  an invalid date).\<close>

datatype date = Date number

text \<open>A plain object is the list of its own properties; a key occurs once in it.\<close>

datatype jsval =
    JUndefined
  | JNull
  | JBool bool
  | JNum number
  | JStr string
  | JDate date
  | JArr "jsval list"
  | JObj "(string \<times> jsval) list"

text \<open>The \<open>typeof\<close> operator.\<close>

fun typeof :: "jsval \<Rightarrow> string" where
  "typeof JUndefined = ''undefined''"
| "typeof JNull = ''object''"
| "typeof (JBool b) = ''boolean''"
| "typeof (JNum n) = ''number''"
| "typeof (JStr s) = ''string''"
| "typeof (JDate t) = ''object''"
| "typeof (JArr xs) = ''object''"
| "typeof (JObj kvs) = ''object''"

text \<open>\<open>value instanceof Date\<close> and \<open>Array.isArray(value)\<close>.\<close>

fun instanceof_Date :: "jsval \<Rightarrow> bool" where
  "instanceof_Date (JDate t) = True"
| "instanceof_Date v = False"

fun Array_isArray :: "jsval \<Rightarrow> bool" where
  "Array_isArray (JArr xs) = True"
| "Array_isArray v = False"

text \<open>\<open>Number.isFinite(value)\<close>: false for every value that is not a number.\<close>

fun Number_isFinite :: "jsval \<Rightarrow> bool" where
  "Number_isFinite (JNum (Finite q)) = True"
| "Number_isFinite v = False"

text \<open>The comparison \<open>x > 0\<close> on a number; every comparison with \<open>NaN\<close> is false.\<close>

fun greater_zero :: "number \<Rightarrow> bool" where
  "greater_zero (Finite q) = (q > 0)"
| "greater_zero PosInfinity = True"
| "greater_zero NaN = False"
| "greater_zero NegInfinity = False"

text \<open>\<open>!!value\<close>: the falsy values are \<open>undefined\<close>, \<open>null\<close>, \<open>false\<close>, zero, \<open>NaN\<close> and
  the empty string.\<close>

fun ToBoolean :: "jsval \<Rightarrow> bool" where
  "ToBoolean JUndefined = False"
| "ToBoolean JNull = False"
| "ToBoolean (JBool b) = b"
| "ToBoolean (JNum (Finite q)) = (q \<noteq> 0)"
| "ToBoolean (JNum NaN) = False"
| "ToBoolean (JNum PosInfinity) = True"
| "ToBoolean (JNum NegInfinity) = True"
| "ToBoolean (JStr s) = (s \<noteq> [])"
| "ToBoolean (JDate t) = True"
| "ToBoolean (JArr xs) = True"
| "ToBoolean (JObj kvs) = True"

text \<open>The narrowing TypeScript performs after a \<open>typeof\<close> or \<open>Array.isArray\<close> test.\<close>

fun string_of :: "jsval \<Rightarrow> string" where
  "string_of (JStr s) = s"
| "string_of v = []"

fun number_of :: "jsval \<Rightarrow> number" where
  "number_of (JNum n) = n"
| "number_of v = NaN"

fun elements :: "jsval \<Rightarrow> jsval list" where
  "elements (JArr xs) = xs"
| "elements v = []"

text \<open>\<open>new Date(n)\<close> for a number \<open>n\<close>: the time value is \<open>TimeClip(n)\<close>, which is \<open>NaN\<close>
  beyond 8.64e15 milliseconds and drops the fraction otherwise.\<close>

fun TimeClip :: "number \<Rightarrow> number" where
  "TimeClip (Finite q) =
     (if \<bar>q\<bar> > 8640000000000000 then NaN
      else Finite (of_int (if q \<ge> 0 then \<lfloor>q\<rfloor> else \<lceil>q\<rceil>)))"
| "TimeClip n = NaN"

definition new_Date :: "number \<Rightarrow> jsval" where
  "new_Date n = JDate (Date (TimeClip n))"

subsection \<open>Decimal numerals\<close>

definition is_digit :: "char \<Rightarrow> bool" where
  "is_digit c = (c \<in> set ''0123456789'')"

definition digit_val :: "char \<Rightarrow> nat" where
  "digit_val c = of_char c - 48"

definition digits_val :: "string \<Rightarrow> nat" where
  "digits_val s = foldl (\<lambda>acc c. acc * 10 + digit_val c) 0 s"

text \<open>The string of a non-negative integer inside a template literal (\<open>${ i }\<close>).\<close>

fun show_nat :: "nat \<Rightarrow> string" where
  "show_nat n =
     (if n < 10 then [''0123456789'' ! n]
      else show_nat (n div 10) @ [''0123456789'' ! (n mod 10)])"

declare show_nat.simps [simp del]

text \<open>An array index as a property key is the canonical decimal string of the index.\<close>

definition array_index :: "string \<Rightarrow> nat option" where
  "array_index key =
     (if key \<noteq> [] \<and> list_all is_digit key \<and> (hd key \<noteq> CHR ''0'' \<or> key = ''0'')
      then Some (digits_val key) else None)"

subsection \<open>Own properties\<close>

datatype error = TypeError string | ReferenceError string

text \<open>
  \<open>Object.prototype.hasOwnProperty.call(v, key)\<close>. The call converts \<open>v\<close> to an object
  first and throws a \<open>TypeError\<close> on \<open>undefined\<close> and \<open>null\<close>. An array owns its
  indices and \<open>length\<close>, and so does the wrapper of a string; the wrappers of booleans
  and numbers, and a \<open>Date\<close>, own nothing.
\<close>

fun hasOwnProperty :: "jsval \<Rightarrow> string \<Rightarrow> error + bool" where
  "hasOwnProperty JUndefined key = Inl (TypeError ''Cannot convert undefined or null to object'')"
| "hasOwnProperty JNull key = Inl (TypeError ''Cannot convert undefined or null to object'')"
| "hasOwnProperty (JObj kvs) key = Inr (key \<in> set (map fst kvs))"
| "hasOwnProperty (JArr xs) key =
     Inr (case array_index key of Some i \<Rightarrow> i < length xs | None \<Rightarrow> key = ''length'')"
| "hasOwnProperty (JStr s) key =
     Inr (case array_index key of Some i \<Rightarrow> i < length s | None \<Rightarrow> key = ''length'')"
| "hasOwnProperty (JBool b) key = Inr False"
| "hasOwnProperty (JNum n) key = Inr False"
| "hasOwnProperty (JDate t) key = Inr False"

text \<open>The read \<open>v[key]\<close> of an own property (the source reads only after \<open>has\<close>
  answered true); a key that is not an own property reads here as \<open>undefined\<close>.\<close>

fun getProp :: "jsval \<Rightarrow> string \<Rightarrow> jsval" where
  "getProp (JObj kvs) key = (case map_of kvs key of Some v \<Rightarrow> v | None \<Rightarrow> JUndefined)"
| "getProp (JArr xs) key =
     (case array_index key of
        Some i \<Rightarrow> if i < length xs then xs ! i else JUndefined
      | None \<Rightarrow> if key = ''length'' then JNum (Finite (of_nat (length xs))) else JUndefined)"
| "getProp (JStr s) key =
     (case array_index key of
        Some i \<Rightarrow> if i < length s then JStr [s ! i] else JUndefined
      | None \<Rightarrow> if key = ''length'' then JNum (Finite (of_nat (length s))) else JUndefined)"
| "getProp v key = JUndefined"

section \<open>The runtime's library functions\<close>

text \<open>
  The getters call four functions that are not part of the repository: \<open>util.inspect\<close>
  of Node.js, and \<open>Number.parseFloat\<close>, \<open>Number.parseInt\<close> and \<open>Date.parse\<close> of the
  language. They are parameters of the model, so every general statement below holds
  whatever these functions return.
\<close>

record runtime =
  inspect :: "jsval \<Rightarrow> string"
  parseFloat :: "string \<Rightarrow> number"
  parseInt :: "string \<Rightarrow> number"
  Date_parse :: "string \<Rightarrow> number"

subsection \<open>A concrete runtime\<close>

text \<open>
  The concrete checks below need concrete library functions. \<open>es_parseInt\<close> and
  \<open>es_parseFloat\<close> follow the algorithms of ECMA-262 for \<open>parseInt(string)\<close> without
  a radix and for \<open>parseFloat(string)\<close>, on ASCII input and with exact values: leading
  white space is dropped, a sign is read, and the longest prefix that is a numeral is
  converted; what follows the numeral is ignored, and no numeral at all gives \<open>NaN\<close>.
\<close>

definition is_white_space :: "char \<Rightarrow> bool" where
  "is_white_space c = (c \<in> {CHR 0x09, CHR 0x0A, CHR 0x0B, CHR 0x0C, CHR 0x0D, CHR '' ''})"

definition is_hex_digit :: "char \<Rightarrow> bool" where
  "is_hex_digit c = (c \<in> set ''0123456789abcdefABCDEF'')"

definition hex_digit_val :: "char \<Rightarrow> nat" where
  "hex_digit_val c =
     (if is_digit c then of_char c - 48
      else if c \<in> set ''abcdef'' then of_char c - 87
      else of_char c - 55)"

definition es_parseInt :: "string \<Rightarrow> number" where
  "es_parseInt input =
     (let S = dropWhile is_white_space input;
          sign = (if S \<noteq> [] \<and> hd S = CHR ''-'' then - 1 else 1 :: int);
          S = (if S \<noteq> [] \<and> (hd S = CHR ''+'' \<or> hd S = CHR ''-'') then tl S else S);
          hex = (take 2 S = ''0x'' \<or> take 2 S = ''0X'');
          S = (if hex then drop 2 S else S);
          R = (if hex then 16 else 10 :: nat);
          Z = takeWhile (if hex then is_hex_digit else is_digit) S
      in if Z = [] then NaN
         else Finite (of_int (sign * int (foldl (\<lambda>acc c. acc * R + hex_digit_val c) 0 Z))))"

text \<open>The exponent part of a decimal literal: \<open>e\<close> or \<open>E\<close>, an optional sign and at
  least one digit. Without a digit there is no exponent part.\<close>

definition exponent_part :: "string \<Rightarrow> int" where
  "exponent_part r =
     (if r \<noteq> [] \<and> (hd r = CHR ''e'' \<or> hd r = CHR ''E'')
      then (let r1 = tl r;
                neg = (r1 \<noteq> [] \<and> hd r1 = CHR ''-'');
                r2 = (if r1 \<noteq> [] \<and> (hd r1 = CHR ''+'' \<or> hd r1 = CHR ''-'') then tl r1 else r1);
                ds = takeWhile is_digit r2
            in if ds = [] then 0
               else if neg then - int (digits_val ds) else int (digits_val ds))
      else 0)"

definition scale10 :: "rat \<Rightarrow> int \<Rightarrow> rat" where
  "scale10 q e = (if e \<ge> 0 then q * 10 ^ nat e else q / 10 ^ nat (- e))"

definition es_parseFloat :: "string \<Rightarrow> number" where
  "es_parseFloat input =
     (let S = dropWhile is_white_space input;
          neg = (S \<noteq> [] \<and> hd S = CHR ''-'');
          S = (if S \<noteq> [] \<and> (hd S = CHR ''+'' \<or> hd S = CHR ''-'') then tl S else S)
      in if prefix ''Infinity'' S then (if neg then NegInfinity else PosInfinity)
         else
          (let ip = takeWhile is_digit S;
               r1 = dropWhile is_digit S;
               dot = (r1 \<noteq> [] \<and> hd r1 = CHR ''.'');
               fp = (if dot then takeWhile is_digit (tl r1) else []);
               r2 = (if dot then dropWhile is_digit (tl r1) else r1)
           in if ip = [] \<and> fp = [] then NaN
              else
               (let m = of_nat (digits_val ip) + of_nat (digits_val fp) / 10 ^ length fp;
                    q = scale10 m (exponent_part r2)
                in Finite (if neg then - q else q))))"

text \<open>
  \<open>sample_inspect\<close> prints \<open>undefined\<close>, \<open>null\<close>, booleans, \<open>NaN\<close>, the infinities,
  integers and strings the way \<open>util.inspect\<close> does, and a bracketed tag for everything
  else; \<open>sample_Date_parse\<close> is \<open>Date.parse\<close> tabulated on two ISO strings. Both only
  serve to run the getters on concrete inputs.
\<close>

fun sample_inspect :: "jsval \<Rightarrow> string" where
  "sample_inspect JUndefined = ''undefined''"
| "sample_inspect JNull = ''null''"
| "sample_inspect (JBool b) = (if b then ''true'' else ''false'')"
| "sample_inspect (JNum NaN) = ''NaN''"
| "sample_inspect (JNum PosInfinity) = ''Infinity''"
| "sample_inspect (JNum NegInfinity) = ''-Infinity''"
| "sample_inspect (JNum (Finite q)) =
     (if q = of_int \<lfloor>q\<rfloor>
      then (if q < 0 then ''-'' else []) @ show_nat (nat \<bar>\<lfloor>q\<rfloor>\<bar>)
      else ''[Number]'')"
| "sample_inspect (JStr s) = [CHR 0x27] @ s @ [CHR 0x27]"
| "sample_inspect (JDate t) = ''[Date]''"
| "sample_inspect (JArr xs) = ''[Array]''"
| "sample_inspect (JObj kvs) = ''[Object]''"

definition sample_Date_parse :: "string \<Rightarrow> number" where
  "sample_Date_parse s =
     (if s = ''1970-01-02T00:00:00.000Z'' then Finite 86400000
      else if s = ''1969-12-31T00:00:00.000Z'' then Finite (- 86400000)
      else NaN)"

definition sample_runtime :: runtime where
  "sample_runtime =
     \<lparr>inspect = sample_inspect, parseFloat = es_parseFloat, parseInt = es_parseInt,
      Date_parse = sample_Date_parse\<rparr>"

section \<open>DataPicker\<close>

record DataPicker =
  name :: string
  data :: jsval

text \<open>An optional parameter that the caller leaves out reads as \<open>undefined\<close>.\<close>

definition param :: "jsval option \<Rightarrow> jsval" where
  "param a = (case a of None \<Rightarrow> JUndefined | Some v \<Rightarrow> v)"

text \<open>The constructor.\<close>

definition new_DataPicker :: "runtime \<Rightarrow> string \<Rightarrow> jsval \<Rightarrow> error + DataPicker" where
  "new_DataPicker rt nm dt =
     (if typeof dt \<noteq> ''object''
      then Inl (TypeError (''Invalid data (expected object, got '' @ typeof dt @ '': ''
                            @ inspect rt dt @ '')''))
      else Inr \<lparr>name = nm, data = dt\<rparr>)"

definition has :: "DataPicker \<Rightarrow> string \<Rightarrow> error + bool" where
  "has d key = hasOwnProperty (data d) key"

definition missing_key :: "DataPicker \<Rightarrow> string \<Rightarrow> error" where
  "missing_key d key = ReferenceError (''Missing key '' @ key @ '' in '' @ name d)"

definition get :: "DataPicker \<Rightarrow> string \<Rightarrow> jsval option \<Rightarrow> error + jsval" where
  "get d key fallback =
     (case has d key of
        Inl e \<Rightarrow> Inl e
      | Inr True \<Rightarrow> Inr (getProp (data d) key)
      | Inr False \<Rightarrow>
          if param fallback \<noteq> JUndefined then Inr (param fallback)
          else Inl (missing_key d key))"

text \<open>The message every getter builds when the value has the wrong type:
  \<open>Invalid value for ${ key } in ${ this.name } (expected T, got: ${ inspect(v) })\<close>.\<close>

definition invalid_value :: "runtime \<Rightarrow> DataPicker \<Rightarrow> string \<Rightarrow> string \<Rightarrow> jsval \<Rightarrow> error" where
  "invalid_value rt d key expected v =
     TypeError (''Invalid value for '' @ key @ '' in '' @ name d
                @ '' (expected '' @ expected @ '', got: '' @ inspect rt v @ '')'')"

text \<open>A typed getter passes its own \<open>fallback\<close> parameter on to \<open>get\<close>, be it
  \<open>undefined\<close> or not.\<close>

definition getString :: "runtime \<Rightarrow> DataPicker \<Rightarrow> string \<Rightarrow> jsval option \<Rightarrow> error + jsval" where
  "getString rt d key fallback =
     (case get d key (Some (param fallback)) of
        Inl e \<Rightarrow> Inl e
      | Inr v \<Rightarrow>
          if typeof v \<noteq> ''string'' then Inl (invalid_value rt d key ''string'' v)
          else Inr v)"

definition getStringOptional :: "runtime \<Rightarrow> DataPicker \<Rightarrow> string \<Rightarrow> error + jsval" where
  "getStringOptional rt d key =
     (case has d key of
        Inl e \<Rightarrow> Inl e
      | Inr False \<Rightarrow> Inr JUndefined
      | Inr True \<Rightarrow> getString rt d key None)"

definition getNumber :: "runtime \<Rightarrow> DataPicker \<Rightarrow> string \<Rightarrow> jsval option \<Rightarrow> error + jsval" where
  "getNumber rt d key fallback =
     (case get d key (Some (param fallback)) of
        Inl e \<Rightarrow> Inl e
      | Inr v0 \<Rightarrow>
          (let v = (if typeof v0 = ''string''
                    then (if CHR ''.'' \<in> set (string_of v0)
                          then JNum (parseFloat rt (string_of v0))
                          else JNum (parseInt rt (string_of v0)))
                    else v0)
           in if typeof v \<noteq> ''number'' \<or> \<not> Number_isFinite v
              then Inl (invalid_value rt d key ''number'' v)
              else Inr v))"

definition getNumberOptional :: "runtime \<Rightarrow> DataPicker \<Rightarrow> string \<Rightarrow> error + jsval" where
  "getNumberOptional rt d key =
     (case has d key of
        Inl e \<Rightarrow> Inl e
      | Inr False \<Rightarrow> Inr JUndefined
      | Inr True \<Rightarrow> getNumber rt d key None)"

definition getBoolean :: "DataPicker \<Rightarrow> string \<Rightarrow> jsval option \<Rightarrow> error + jsval" where
  "getBoolean d key fallback =
     (case get d key (Some (param fallback)) of
        Inl e \<Rightarrow> Inl e
      | Inr v \<Rightarrow>
          if typeof v = ''boolean'' then Inr v
          else Inr (JBool (\<not> \<not> ToBoolean v)))"

definition getBooleanOptional :: "DataPicker \<Rightarrow> string \<Rightarrow> error + jsval" where
  "getBooleanOptional d key =
     (case has d key of
        Inl e \<Rightarrow> Inl e
      | Inr False \<Rightarrow> Inr JUndefined
      | Inr True \<Rightarrow> getBoolean d key None)"

definition getDate :: "runtime \<Rightarrow> DataPicker \<Rightarrow> string \<Rightarrow> jsval option \<Rightarrow> error + jsval" where
  "getDate rt d key fallback =
     (case get d key (Some (param fallback)) of
        Inl e \<Rightarrow> Inl e
      | Inr v \<Rightarrow>
          if instanceof_Date v then Inr v
          else if typeof v = ''string''
                  \<and> Number_isFinite (JNum (Date_parse rt (string_of v)))
                  \<and> greater_zero (Date_parse rt (string_of v))
          then Inr (new_Date (Date_parse rt (string_of v)))
          else if typeof v = ''number'' \<and> Number_isFinite v \<and> greater_zero (number_of v)
          then Inr (new_Date (number_of v))
          else Inl (invalid_value rt d key ''date'' v))"

definition getDateOptional :: "runtime \<Rightarrow> DataPicker \<Rightarrow> string \<Rightarrow> error + jsval" where
  "getDateOptional rt d key =
     (case has d key of
        Inl e \<Rightarrow> Inl e
      | Inr False \<Rightarrow> Inr JUndefined
      | Inr True \<Rightarrow> getDate rt d key None)"

definition getArray :: "runtime \<Rightarrow> DataPicker \<Rightarrow> string \<Rightarrow> jsval option \<Rightarrow> error + jsval list" where
  "getArray rt d key fallback =
     (case get d key (Some (param fallback)) of
        Inl e \<Rightarrow> Inl e
      | Inr v \<Rightarrow>
          if \<not> Array_isArray v then Inl (invalid_value rt d key ''array'' v)
          else Inr (elements v))"

text \<open>
  The callback of \<open>value.map((item, i) => ...)\<close> in \<open>getObjectArray\<close>, run over the
  items from index \<open>i\<close> on; \<open>whole\<close> is the array \<open>value\<close> that the callback's error
  message inspects. The first item that is not an object ends the call.
\<close>

fun map_items ::
  "runtime \<Rightarrow> DataPicker \<Rightarrow> string \<Rightarrow> jsval list \<Rightarrow> nat \<Rightarrow> jsval list \<Rightarrow> error + DataPicker list"
where
  "map_items rt d key whole i [] = Inr []"
| "map_items rt d key whole i (item # items) =
     (if typeof item \<noteq> ''object'' \<or> item = JNull
      then Inl (invalid_value rt d key ''object'' (JArr whole))
      else (case new_DataPicker rt (name d @ ''.'' @ key @ ''['' @ show_nat i @ '']'') item of
              Inl e \<Rightarrow> Inl e
            | Inr p \<Rightarrow>
                (case map_items rt d key whole (Suc i) items of
                   Inl e \<Rightarrow> Inl e
                 | Inr ps \<Rightarrow> Inr (p # ps))))"

definition getObjectArray ::
  "runtime \<Rightarrow> DataPicker \<Rightarrow> string \<Rightarrow> jsval option \<Rightarrow> error + DataPicker list"
where
  "getObjectArray rt d key fallback =
     (case getArray rt d key (Some (param fallback)) of
        Inl e \<Rightarrow> Inl e
      | Inr xs \<Rightarrow> map_items rt d key xs 0 xs)"

definition getObject :: "runtime \<Rightarrow> DataPicker \<Rightarrow> string \<Rightarrow> jsval option \<Rightarrow> error + DataPicker" where
  "getObject rt d key fallback =
     (case get d key (Some (param fallback)) of
        Inl e \<Rightarrow> Inl e
      | Inr v \<Rightarrow>
          if typeof v \<noteq> ''object'' \<or> v = JNull
          then Inl (invalid_value rt d key ''object'' v)
          else new_DataPicker rt (name d @ ''.'' @ key) v)"

definition getRawObject :: "runtime \<Rightarrow> DataPicker \<Rightarrow> string \<Rightarrow> jsval option \<Rightarrow> error + jsval" where
  "getRawObject rt d key fallback =
     (case get d key (Some (param fallback)) of
        Inl e \<Rightarrow> Inl e
      | Inr v \<Rightarrow>
          if typeof v \<noteq> ''object'' \<or> v = JNull
          then Inl (invalid_value rt d key ''object'' v)
          else Inr v)"

definition raw :: "DataPicker \<Rightarrow> jsval" where
  "raw d = data d"

text \<open>A non-null structured value: the test \<open>getObject\<close>, \<open>getRawObject\<close> and
  \<open>getObjectArray\<close> apply to a value before wrapping it, and what the wrapped source
  of an accessor is meant to be.\<close>

definition is_object :: "jsval \<Rightarrow> bool" where
  "is_object v = (typeof v = ''object'' \<and> v \<noteq> JNull)"

section \<open>Raw lookup\<close>

lemma param_simps [simp]: "param None = JUndefined" "param (Some v) = v"
  by (simp_all add: param_def)

lemma get_param [simp]: "get d key (Some (param fb)) = get d key fb"
  by (simp add: get_def split: sum.splits bool.splits)

lemma has_object: "is_object (data d) \<Longrightarrow> \<exists>b. has d key = Inr b"
  by (cases "data d") (auto simp: has_def is_object_def)

lemma get_present: "has d key = Inr True \<Longrightarrow> get d key fb = Inr (getProp (data d) key)"
  by (simp add: get_def)

lemma get_fallback:
  "has d key = Inr False \<Longrightarrow> param fb \<noteq> JUndefined \<Longrightarrow> get d key fb = Inr (param fb)"
  by (simp add: get_def)

lemma get_missing:
  "has d key = Inr False \<Longrightarrow> param fb = JUndefined \<Longrightarrow> get d key fb = Inl (missing_key d key)"
  by (simp add: get_def)

lemma has_JObj: "data d = JObj kvs \<Longrightarrow> has d key = Inr (map_of kvs key \<noteq> None)"
  by (simp add: has_def map_of_eq_None_iff)

lemma get_JObj_stored:
  "data d = JObj kvs \<Longrightarrow> map_of kvs key = Some v \<Longrightarrow> get d key fb = Inr v"
  by (simp add: get_def has_JObj)

lemma get_present_any: "has d key = Inr True \<Longrightarrow> get d key fb = get d key fb'"
  by (simp add: get_def)

lemmas getter_defs =
  getString_def getNumber_def getBoolean_def getDate_def getArray_def getObjectArray_def
  getObject_def getRawObject_def

text \<open>Every typed getter fails with the error of the raw lookup, and depends on its
  fallback only through the raw lookup.\<close>

lemma getters_propagate:
  assumes "get d key fb = Inl e"
  shows "getString rt d key fb = Inl e" "getNumber rt d key fb = Inl e"
    "getBoolean d key fb = Inl e" "getDate rt d key fb = Inl e"
    "getArray rt d key fb = Inl e" "getObjectArray rt d key fb = Inl e"
    "getObject rt d key fb = Inl e" "getRawObject rt d key fb = Inl e"
  using assms by (simp_all add: getter_defs)

lemma getters_cong:
  assumes "get d key fb = get d key fb'"
  shows "getString rt d key fb = getString rt d key fb'"
    "getNumber rt d key fb = getNumber rt d key fb'"
    "getBoolean d key fb = getBoolean d key fb'"
    "getDate rt d key fb = getDate rt d key fb'"
    "getArray rt d key fb = getArray rt d key fb'"
    "getObjectArray rt d key fb = getObjectArray rt d key fb'"
    "getObject rt d key fb = getObject rt d key fb'"
    "getRawObject rt d key fb = getRawObject rt d key fb'"
  using assms by (simp_all add: getter_defs)

text \<open>
  C1. The raw lookup follows the three-step policy. A key that is an own property of the
  source yields the stored value, whatever that value is (so also \<open>null\<close>, \<open>undefined\<close>,
  \<open>false\<close>, \<open>0\<close> and the empty string) and whatever the fallback is. A key that is not
  an own property yields the fallback when one was supplied, that is, when the fallback
  is not the unset value \<open>undefined\<close>, and fails with the missing-key
  \<open>ReferenceError\<close> otherwise. Every getter shares the policy: on a present key it
  ignores its fallback, and it fails with the raw lookup's error whenever the raw lookup
  fails.
\<close>

theorem raw_lookup_policy:
  "(has d key = Inr True \<longrightarrow> get d key fb = Inr (getProp (data d) key))
   \<and> (has d key = Inr False \<and> param fb \<noteq> JUndefined \<longrightarrow> get d key fb = Inr (param fb))
   \<and> (has d key = Inr False \<and> param fb = JUndefined \<longrightarrow>
        get d key fb = Inl (ReferenceError (''Missing key '' @ key @ '' in '' @ name d)))
   \<and> (data d = JObj kvs \<and> map_of kvs key = Some v \<longrightarrow>
        has d key = Inr True \<and> get d key fb = Inr v)
   \<and> (data d = JObj kvs \<and> map_of kvs key = None \<longrightarrow> has d key = Inr False)
   \<and> (has d key = Inr True \<longrightarrow>
        getString rt d key fb = getString rt d key None
        \<and> getNumber rt d key fb = getNumber rt d key None
        \<and> getBoolean d key fb = getBoolean d key None
        \<and> getDate rt d key fb = getDate rt d key None
        \<and> getArray rt d key fb = getArray rt d key None
        \<and> getObjectArray rt d key fb = getObjectArray rt d key None
        \<and> getObject rt d key fb = getObject rt d key None
        \<and> getRawObject rt d key fb = getRawObject rt d key None)
   \<and> (get d key fb = Inl e \<longrightarrow>
        getString rt d key fb = Inl e
        \<and> getNumber rt d key fb = Inl e
        \<and> getBoolean d key fb = Inl e
        \<and> getDate rt d key fb = Inl e
        \<and> getArray rt d key fb = Inl e
        \<and> getObjectArray rt d key fb = Inl e
        \<and> getObject rt d key fb = Inl e
        \<and> getRawObject rt d key fb = Inl e)"
proof -
  have present: "has d key = Inr True \<Longrightarrow> get d key fb = get d key None"
    by (rule get_present_any)
  show ?thesis
    using get_present [of d key fb] get_fallback [of d key fb] get_missing [of d key fb]
      get_JObj_stored [of d kvs key v fb] has_JObj [of d kvs key]
      getters_cong [OF present]
    by (simp add: missing_key_def getters_propagate)
qed

theorem raw_lookup_policy_witness:
  "has \<lparr>name = ''cfg'', data = JObj [(''u'', JUndefined), (''z'', JNum (Finite 0))]\<rparr> ''u''
     = Inr True
   \<and> get \<lparr>name = ''cfg'', data = JObj [(''u'', JUndefined), (''z'', JNum (Finite 0))]\<rparr> ''u''
       (Some (JStr ''x'')) = Inr JUndefined
   \<and> getBoolean \<lparr>name = ''cfg'', data = JObj [(''u'', JUndefined), (''z'', JNum (Finite 0))]\<rparr>
       ''u'' (Some (JBool True)) = Inr (JBool False)
   \<and> has \<lparr>name = ''cfg'', data = JObj [(''u'', JUndefined), (''z'', JNum (Finite 0))]\<rparr> ''k''
       = Inr False
   \<and> get \<lparr>name = ''cfg'', data = JObj [(''u'', JUndefined), (''z'', JNum (Finite 0))]\<rparr> ''k''
       (Some (JStr ''x'')) = Inr (JStr ''x'')
   \<and> get \<lparr>name = ''cfg'', data = JObj [(''u'', JUndefined), (''z'', JNum (Finite 0))]\<rparr> ''k''
       None = Inl (ReferenceError ''Missing key k in cfg'')
   \<and> getDate sample_runtime
       \<lparr>name = ''cfg'', data = JObj [(''u'', JUndefined), (''z'', JNum (Finite 0))]\<rparr> ''k''
       None = Inl (ReferenceError ''Missing key k in cfg'')"
  using
    raw_lookup_policy [where d = "\<lparr>name = ''cfg'',
        data = JObj [(''u'', JUndefined), (''z'', JNum (Finite 0))]\<rparr>"
      and key = "''u''" and fb = "Some (JStr ''x'')"
      and kvs = "[(''u'', JUndefined), (''z'', JNum (Finite 0))]" and v = JUndefined]
    raw_lookup_policy [where d = "\<lparr>name = ''cfg'',
        data = JObj [(''u'', JUndefined), (''z'', JNum (Finite 0))]\<rparr>"
      and key = "''u''" and fb = "Some (JBool True)" and rt = sample_runtime]
    raw_lookup_policy [where d = "\<lparr>name = ''cfg'',
        data = JObj [(''u'', JUndefined), (''z'', JNum (Finite 0))]\<rparr>"
      and key = "''k''" and fb = "Some (JStr ''x'')"
      and kvs = "[(''u'', JUndefined), (''z'', JNum (Finite 0))]"]
    raw_lookup_policy [where d = "\<lparr>name = ''cfg'',
        data = JObj [(''u'', JUndefined), (''z'', JNum (Finite 0))]\<rparr>"
      and key = "''k''" and fb = None and rt = sample_runtime
      and e = "ReferenceError ''Missing key k in cfg''"]
  by (simp add: has_def getBoolean_def get_def)

lemma get_undefined_fallback: "get d key (Some JUndefined) = get d key None"
  by (simp add: get_def)

lemma get_fallback_not_undefined:
  "has d key = Inr False \<Longrightarrow> get d key fb \<noteq> Inr JUndefined"
  by (simp add: get_def)

text \<open>
  C10. An explicit \<open>undefined\<close> fallback is the unset fallback: \<open>get\<close> and every
  typed getter return the same with \<open>undefined\<close> passed as without a fallback, so on
  an absent key they fail with the missing-key \<open>ReferenceError\<close>. The raw lookup of
  an absent key never delivers \<open>undefined\<close>, whatever the fallback; a present key
  that holds \<open>undefined\<close> is still returned.
\<close>

theorem undefined_fallback_is_unset:
  "get d key (Some JUndefined) = get d key None
   \<and> getString rt d key (Some JUndefined) = getString rt d key None
   \<and> getNumber rt d key (Some JUndefined) = getNumber rt d key None
   \<and> getBoolean d key (Some JUndefined) = getBoolean d key None
   \<and> getDate rt d key (Some JUndefined) = getDate rt d key None
   \<and> getArray rt d key (Some JUndefined) = getArray rt d key None
   \<and> getObjectArray rt d key (Some JUndefined) = getObjectArray rt d key None
   \<and> getObject rt d key (Some JUndefined) = getObject rt d key None
   \<and> getRawObject rt d key (Some JUndefined) = getRawObject rt d key None
   \<and> (has d key = Inr False \<longrightarrow>
        get d key (Some JUndefined)
          = Inl (ReferenceError (''Missing key '' @ key @ '' in '' @ name d))
        \<and> getString rt d key (Some JUndefined)
          = Inl (ReferenceError (''Missing key '' @ key @ '' in '' @ name d))
        \<and> getNumber rt d key (Some JUndefined)
          = Inl (ReferenceError (''Missing key '' @ key @ '' in '' @ name d))
        \<and> getBoolean d key (Some JUndefined)
          = Inl (ReferenceError (''Missing key '' @ key @ '' in '' @ name d))
        \<and> getDate rt d key (Some JUndefined)
          = Inl (ReferenceError (''Missing key '' @ key @ '' in '' @ name d))
        \<and> getArray rt d key (Some JUndefined)
          = Inl (ReferenceError (''Missing key '' @ key @ '' in '' @ name d))
        \<and> getObjectArray rt d key (Some JUndefined)
          = Inl (ReferenceError (''Missing key '' @ key @ '' in '' @ name d))
        \<and> getObject rt d key (Some JUndefined)
          = Inl (ReferenceError (''Missing key '' @ key @ '' in '' @ name d))
        \<and> getRawObject rt d key (Some JUndefined)
          = Inl (ReferenceError (''Missing key '' @ key @ '' in '' @ name d)))
   \<and> (has d key = Inr False \<longrightarrow> get d key fb \<noteq> Inr JUndefined)
   \<and> (data d = JObj kvs \<and> map_of kvs key = Some JUndefined \<longrightarrow>
        get d key fb = Inr JUndefined)"
proof -
  have eq: "get d key (Some JUndefined) = get d key None"
    by (rule get_undefined_fallback)
  have miss: "get d key None = Inl (ReferenceError (''Missing key '' @ key @ '' in '' @ name d))"
    if "has d key = Inr False"
    using that by (simp add: get_missing missing_key_def)
  have stored: "get d key fb = Inr JUndefined"
    if "data d = JObj kvs \<and> map_of kvs key = Some JUndefined"
    using that by (simp add: get_JObj_stored)
  show ?thesis
    by (intro conjI impI)
      (simp_all add: eq getters_cong [OF eq] miss getters_propagate [OF miss]
        get_fallback_not_undefined stored)
qed

theorem undefined_fallback_is_unset_witness:
  "has \<lparr>name = ''cfg'', data = JObj [(''u'', JUndefined)]\<rparr> ''k'' = Inr False
   \<and> get \<lparr>name = ''cfg'', data = JObj [(''u'', JUndefined)]\<rparr> ''k'' (Some JUndefined)
       = Inl (ReferenceError ''Missing key k in cfg'')
   \<and> getNumber sample_runtime \<lparr>name = ''cfg'', data = JObj [(''u'', JUndefined)]\<rparr> ''k''
       (Some JUndefined) = Inl (ReferenceError ''Missing key k in cfg'')
   \<and> get \<lparr>name = ''cfg'', data = JObj [(''u'', JUndefined)]\<rparr> ''k'' (Some JNull)
       \<noteq> Inr JUndefined
   \<and> get \<lparr>name = ''cfg'', data = JObj [(''u'', JUndefined)]\<rparr> ''u'' (Some JNull)
       = Inr JUndefined"
  using
    undefined_fallback_is_unset [where d = "\<lparr>name = ''cfg'', data = JObj [(''u'', JUndefined)]\<rparr>"
      and key = "''k''" and rt = sample_runtime and fb = "Some JNull"
      and kvs = "[(''u'', JUndefined)]"]
    undefined_fallback_is_unset [where d = "\<lparr>name = ''cfg'', data = JObj [(''u'', JUndefined)]\<rparr>"
      and key = "''u''" and kvs = "[(''u'', JUndefined)]" and fb = "Some JNull"
      and rt = sample_runtime]
  by (simp add: has_def get_def getNumber_def missing_key_def)

section \<open>Construction\<close>

lemma new_DataPicker_fails_iff:
  "(\<exists>e. new_DataPicker rt nm dt = Inl e) \<longleftrightarrow> typeof dt \<noteq> ''object''"
  by (simp add: new_DataPicker_def)

lemma getObject_rejects_null:
  "getObject sample_runtime \<lparr>name = ''cfg'', data = JObj [(''k'', JNull)]\<rparr> ''k'' None
     = Inl (TypeError ''Invalid value for k in cfg (expected object, got: null)'')"
  by (simp add: getObject_def get_def has_def invalid_value_def sample_runtime_def)

lemma new_DataPicker_primitive:
  "typeof dt \<noteq> ''object'' \<Longrightarrow>
     new_DataPicker rt nm dt
       = Inl (TypeError (''Invalid data (expected object, got '' @ typeof dt @ '': ''
                         @ inspect rt dt @ '')''))"
  by (simp add: new_DataPicker_def)

text \<open>
  C2. The constructor tests \<open>typeof data !== 'object'\<close> only, and \<open>typeof null\<close> is
  \<open>'object'\<close>: constructing over \<open>null\<close> succeeds, although \<open>null\<close> is not a
  non-null structured value. The accessor so built throws the runtime's own
  \<open>TypeError\<close> at the first \<open>has\<close>. The sibling \<open>getObject\<close> rejects a \<open>null\<close>
  value with its own \<open>TypeError\<close>.
\<close>

theorem constructor_accepts_null:
  "new_DataPicker sample_runtime ''cfg'' JNull = Inr \<lparr>name = ''cfg'', data = JNull\<rparr>
   \<and> \<not> is_object JNull
   \<and> has \<lparr>name = ''cfg'', data = JNull\<rparr> ''k''
       = Inl (TypeError ''Cannot convert undefined or null to object'')"
  by (simp add: new_DataPicker_def is_object_def has_def)

section \<open>Optional getters\<close>

text \<open>
  C8. Each optional getter returns \<open>undefined\<close>, without an error, when the key is not
  an own property of the source, and is the non-optional getter without a fallback when
  the key is present. So an error of the non-optional getter on a present key is the
  error of the optional one; for \<open>getStringOptional\<close>, a present value that is not a
  string gives the type-mismatch \<open>TypeError\<close>.
\<close>

theorem optional_getters:
  "(has d key = Inr False \<longrightarrow>
      getStringOptional rt d key = Inr JUndefined
      \<and> getNumberOptional rt d key = Inr JUndefined
      \<and> getBooleanOptional d key = Inr JUndefined
      \<and> getDateOptional rt d key = Inr JUndefined)
   \<and> (has d key = Inr True \<longrightarrow>
      getStringOptional rt d key = getString rt d key None
      \<and> getNumberOptional rt d key = getNumber rt d key None
      \<and> getBooleanOptional d key = getBoolean d key None
      \<and> getDateOptional rt d key = getDate rt d key None)
   \<and> (has d key = Inr True \<and> getString rt d key None = Inl e \<longrightarrow>
      getStringOptional rt d key = Inl e)
   \<and> (has d key = Inr True \<and> getNumber rt d key None = Inl e \<longrightarrow>
      getNumberOptional rt d key = Inl e)
   \<and> (has d key = Inr True \<and> getDate rt d key None = Inl e \<longrightarrow>
      getDateOptional rt d key = Inl e)
   \<and> (has d key = Inr True \<and> typeof (getProp (data d) key) \<noteq> ''string'' \<longrightarrow>
      getStringOptional rt d key
        = Inl (TypeError (''Invalid value for '' @ key @ '' in '' @ name d
             @ '' (expected string, got: '' @ inspect rt (getProp (data d) key) @ '')'')))"
  by (auto simp: getStringOptional_def getNumberOptional_def getBooleanOptional_def
      getDateOptional_def getString_def get_def invalid_value_def)

theorem optional_getters_witness:
  "has \<lparr>name = ''cfg'', data = JObj [(''s'', JStr ''hi''), (''b'', JBool True)]\<rparr> ''k''
     = Inr False
   \<and> getStringOptional sample_runtime
       \<lparr>name = ''cfg'', data = JObj [(''s'', JStr ''hi''), (''b'', JBool True)]\<rparr> ''k''
       = Inr JUndefined
   \<and> getDateOptional sample_runtime
       \<lparr>name = ''cfg'', data = JObj [(''s'', JStr ''hi''), (''b'', JBool True)]\<rparr> ''k''
       = Inr JUndefined
   \<and> has \<lparr>name = ''cfg'', data = JObj [(''s'', JStr ''hi''), (''b'', JBool True)]\<rparr> ''s''
     = Inr True
   \<and> getStringOptional sample_runtime
       \<lparr>name = ''cfg'', data = JObj [(''s'', JStr ''hi''), (''b'', JBool True)]\<rparr> ''s''
       = Inr (JStr ''hi'')
   \<and> has \<lparr>name = ''cfg'', data = JObj [(''s'', JStr ''hi''), (''b'', JBool True)]\<rparr> ''b''
     = Inr True
   \<and> getStringOptional sample_runtime
       \<lparr>name = ''cfg'', data = JObj [(''s'', JStr ''hi''), (''b'', JBool True)]\<rparr> ''b''
       = Inl (TypeError ''Invalid value for b in cfg (expected string, got: true)'')
   \<and> getNumberOptional sample_runtime
       \<lparr>name = ''cfg'', data = JObj [(''s'', JStr ''hi''), (''b'', JBool True)]\<rparr> ''b''
       = Inl (TypeError ''Invalid value for b in cfg (expected number, got: true)'')"
  using
    optional_getters [where d = "\<lparr>name = ''cfg'',
        data = JObj [(''s'', JStr ''hi''), (''b'', JBool True)]\<rparr>"
      and key = "''k''" and rt = sample_runtime and e = "TypeError []"]
    optional_getters [where d = "\<lparr>name = ''cfg'',
        data = JObj [(''s'', JStr ''hi''), (''b'', JBool True)]\<rparr>"
      and key = "''s''" and rt = sample_runtime and e = "TypeError []"]
    optional_getters [where d = "\<lparr>name = ''cfg'',
        data = JObj [(''s'', JStr ''hi''), (''b'', JBool True)]\<rparr>"
      and key = "''b''" and rt = sample_runtime
      and e = "TypeError ''Invalid value for b in cfg (expected number, got: true)''"]
  by (simp add: has_def get_def getString_def getNumber_def invalid_value_def
      sample_runtime_def)

section \<open>Fallbacks\<close>

lemma map_items_name:
  "name d' = name d \<Longrightarrow> map_items rt d' key whole i xs = map_items rt d key whole i xs"
  by (induction xs arbitrary: i) (simp_all add: invalid_value_def split: sum.splits)

lemma getArray_param [simp]: "getArray rt d key (Some (param fb)) = getArray rt d key fb"
  by (simp add: getArray_def)

lemma getters_resolved:
  assumes "get d key fb = Inr v" and "get d' key fb' = Inr v" and "name d' = name d"
  shows "getString rt d key fb = getString rt d' key fb'"
    "getNumber rt d key fb = getNumber rt d' key fb'"
    "getBoolean d key fb = getBoolean d' key fb'"
    "getDate rt d key fb = getDate rt d' key fb'"
    "getArray rt d key fb = getArray rt d' key fb'"
    "getObjectArray rt d key fb = getObjectArray rt d' key fb'"
    "getObject rt d key fb = getObject rt d' key fb'"
    "getRawObject rt d key fb = getRawObject rt d' key fb'"
proof -
  have items: "map_items rt d key whole i xs = map_items rt d' key whole i xs" for whole i xs
    using assms(3) by (rule map_items_name [symmetric])
  show "getString rt d key fb = getString rt d' key fb'"
    "getNumber rt d key fb = getNumber rt d' key fb'"
    "getBoolean d key fb = getBoolean d' key fb'"
    "getDate rt d key fb = getDate rt d' key fb'"
    "getArray rt d key fb = getArray rt d' key fb'"
    "getObject rt d key fb = getObject rt d' key fb'"
    "getRawObject rt d key fb = getRawObject rt d' key fb'"
    using assms by (simp_all add: getter_defs invalid_value_def Let_def)
  then show "getObjectArray rt d key fb = getObjectArray rt d' key fb'"
    by (simp add: getObjectArray_def items split: sum.splits)
qed

text \<open>
  C9. On an absent key, a fallback \<open>F\<close> other than \<open>undefined\<close> is processed by each
  typed getter exactly like a stored value: the getter returns what it returns, without
  a fallback, on an accessor with the same name whose source holds \<open>F\<close> at the key.
  With the concrete runtime, \<open>getNumber\<close> with fallback \<open>"5"\<close> returns the number 5,
  and a fallback that fails the getter's validation raises the type-mismatch
  \<open>TypeError\<close>.
\<close>

theorem fallback_processed_like_stored:
  "(has d key = Inr False \<and> F \<noteq> JUndefined
      \<and> has d' key = Inr True \<and> getProp (data d') key = F \<and> name d' = name d \<longrightarrow>
      getString rt d key (Some F) = getString rt d' key None
      \<and> getNumber rt d key (Some F) = getNumber rt d' key None
      \<and> getBoolean d key (Some F) = getBoolean d' key None
      \<and> getDate rt d key (Some F) = getDate rt d' key None
      \<and> getArray rt d key (Some F) = getArray rt d' key None
      \<and> getObjectArray rt d key (Some F) = getObjectArray rt d' key None
      \<and> getObject rt d key (Some F) = getObject rt d' key None
      \<and> getRawObject rt d key (Some F) = getRawObject rt d' key None)
   \<and> getNumber sample_runtime \<lparr>name = ''cfg'', data = JObj []\<rparr> ''k'' (Some (JStr ''5''))
       = Inr (JNum (Finite 5))
   \<and> getNumber sample_runtime \<lparr>name = ''cfg'', data = JObj []\<rparr> ''k'' (Some (JStr ''abc''))
       = Inl (TypeError ''Invalid value for k in cfg (expected number, got: NaN)'')
   \<and> getString sample_runtime \<lparr>name = ''cfg'', data = JObj []\<rparr> ''k'' (Some (JBool True))
       = Inl (TypeError ''Invalid value for k in cfg (expected string, got: true)'')"
proof -
  have general: "getString rt d key (Some F) = getString rt d' key None
      \<and> getNumber rt d key (Some F) = getNumber rt d' key None
      \<and> getBoolean d key (Some F) = getBoolean d' key None
      \<and> getDate rt d key (Some F) = getDate rt d' key None
      \<and> getArray rt d key (Some F) = getArray rt d' key None
      \<and> getObjectArray rt d key (Some F) = getObjectArray rt d' key None
      \<and> getObject rt d key (Some F) = getObject rt d' key None
      \<and> getRawObject rt d key (Some F) = getRawObject rt d' key None"
    if h: "has d key = Inr False \<and> F \<noteq> JUndefined
      \<and> has d' key = Inr True \<and> getProp (data d') key = F \<and> name d' = name d"
  proof -
    from h have 1: "get d key (Some F) = Inr F"
      by (simp add: get_fallback)
    from h have 2: "get d' key None = Inr F"
      by (simp add: get_present)
    from h have 3: "name d' = name d"
      by simp
    show ?thesis
      by (simp add: getters_resolved [OF 1 2 3])
  qed
  have ex1: "getNumber sample_runtime \<lparr>name = ''cfg'', data = JObj []\<rparr> ''k'' (Some (JStr ''5''))
       = Inr (JNum (Finite 5))"
    by code_simp
  have ex2: "getNumber sample_runtime \<lparr>name = ''cfg'', data = JObj []\<rparr> ''k'' (Some (JStr ''abc''))
       = Inl (TypeError ''Invalid value for k in cfg (expected number, got: NaN)'')"
    by code_simp
  have ex3: "getString sample_runtime \<lparr>name = ''cfg'', data = JObj []\<rparr> ''k'' (Some (JBool True))
       = Inl (TypeError ''Invalid value for k in cfg (expected string, got: true)'')"
    by code_simp
  from general ex1 ex2 ex3 show ?thesis
    by blast
qed

theorem fallback_processed_like_stored_witness:
  "has \<lparr>name = ''cfg'', data = JObj []\<rparr> ''k'' = Inr False
   \<and> JStr ''5'' \<noteq> JUndefined
   \<and> has \<lparr>name = ''cfg'', data = JObj [(''k'', JStr ''5'')]\<rparr> ''k'' = Inr True
   \<and> getProp (data \<lparr>name = ''cfg'', data = JObj [(''k'', JStr ''5'')]\<rparr>) ''k'' = JStr ''5''
   \<and> getNumber sample_runtime \<lparr>name = ''cfg'', data = JObj []\<rparr> ''k'' (Some (JStr ''5''))
       = getNumber sample_runtime \<lparr>name = ''cfg'', data = JObj [(''k'', JStr ''5'')]\<rparr> ''k'' None
   \<and> getString sample_runtime \<lparr>name = ''cfg'', data = JObj []\<rparr> ''k'' (Some (JStr ''5''))
       = Inr (JStr ''5'')"
  using
    fallback_processed_like_stored [where d = "\<lparr>name = ''cfg'', data = JObj []\<rparr>"
      and d' = "\<lparr>name = ''cfg'', data = JObj [(''k'', JStr ''5'')]\<rparr>"
      and key = "''k''" and F = "JStr ''5''" and rt = sample_runtime]
  by (simp add: has_def getString_def get_def)

section \<open>getBoolean\<close>

lemma getBoolean_resolved:
  "get d key fb = Inr v \<Longrightarrow> getBoolean d key fb = Inr (JBool (ToBoolean v))"
  by (cases v) (simp_all add: getBoolean_def)

lemma ToBoolean_falsy:
  "ToBoolean v \<longleftrightarrow>
     v \<notin> {JUndefined, JNull, JBool False, JNum (Finite 0), JNum NaN, JStr []}"
proof (cases v)
  case (JNum n)
  then show ?thesis by (cases n) simp_all
qed simp_all

lemma getBoolean_fails:
  assumes "is_object (data d)" and "getBoolean d key fb = Inl e"
  shows "e = missing_key d key \<and> has d key = Inr False \<and> param fb = JUndefined"
proof -
  from assms(1) obtain b where b: "has d key = Inr b"
    using has_object by blast
  with assms(2) show ?thesis
    by (cases b) (auto simp: getBoolean_def get_def split: if_splits)
qed

text \<open>
  C5. \<open>getBoolean\<close> succeeds on every present key and on every absent key with a
  fallback. A boolean is returned unchanged; any other value is coerced by truthiness:
  \<open>undefined\<close>, \<open>null\<close>, zero, \<open>NaN\<close> and the empty string give \<open>false\<close>,
  everything else \<open>true\<close>. On an accessor over a non-null structured source the only
  failure is the missing-key \<open>ReferenceError\<close> of the raw lookup, for an absent key
  without a fallback.
\<close>

theorem getBoolean_total:
  "(has d key = Inr True \<or> (has d key = Inr False \<and> param fb \<noteq> JUndefined) \<longrightarrow>
      (\<exists>b. getBoolean d key fb = Inr (JBool b)))
   \<and> (get d key fb = Inr (JBool b) \<longrightarrow> getBoolean d key fb = Inr (JBool b))
   \<and> (get d key fb = Inr v \<longrightarrow>
        getBoolean d key fb
          = Inr (JBool (v \<notin> {JUndefined, JNull, JBool False, JNum (Finite 0), JNum NaN, JStr []})))
   \<and> (is_object (data d) \<and> getBoolean d key fb = Inl e \<longrightarrow>
        e = ReferenceError (''Missing key '' @ key @ '' in '' @ name d)
        \<and> has d key = Inr False \<and> param fb = JUndefined)
   \<and> getBoolean \<lparr>name = ''cfg'', data = JObj [(''k'', JNum (Finite 0))]\<rparr> ''k'' None
       = Inr (JBool False)
   \<and> getBoolean \<lparr>name = ''cfg'', data = JObj [(''k'', JStr ''x'')]\<rparr> ''k'' None
       = Inr (JBool True)
   \<and> getBoolean \<lparr>name = ''cfg'', data = JObj [(''k'', JBool False)]\<rparr> ''k'' None
       = Inr (JBool False)"
proof -
  have 1: "\<exists>b. getBoolean d key fb = Inr (JBool b)"
    if "has d key = Inr True \<or> (has d key = Inr False \<and> param fb \<noteq> JUndefined)"
  proof -
    from that obtain v where "get d key fb = Inr v"
      by (auto simp: get_def)
    then show ?thesis
      by (simp add: getBoolean_resolved)
  qed
  have 2: "getBoolean d key fb = Inr (JBool b)" if "get d key fb = Inr (JBool b)"
    using that by (simp add: getBoolean_resolved)
  have 3: "getBoolean d key fb
      = Inr (JBool (v \<notin> {JUndefined, JNull, JBool False, JNum (Finite 0), JNum NaN, JStr []}))"
    if "get d key fb = Inr v"
    using that by (simp only: getBoolean_resolved ToBoolean_falsy)
  have 4: "e = ReferenceError (''Missing key '' @ key @ '' in '' @ name d)
        \<and> has d key = Inr False \<and> param fb = JUndefined"
    if "is_object (data d) \<and> getBoolean d key fb = Inl e"
    using that getBoolean_fails [of d key fb e] by (simp add: missing_key_def)
  have 5: "getBoolean \<lparr>name = ''cfg'', data = JObj [(''k'', JNum (Finite 0))]\<rparr> ''k'' None
       = Inr (JBool False)"
    by (simp add: getBoolean_def get_def has_def)
  have 6: "getBoolean \<lparr>name = ''cfg'', data = JObj [(''k'', JStr ''x'')]\<rparr> ''k'' None
       = Inr (JBool True)"
    by (simp add: getBoolean_def get_def has_def)
  have 7: "getBoolean \<lparr>name = ''cfg'', data = JObj [(''k'', JBool False)]\<rparr> ''k'' None
       = Inr (JBool False)"
    by (simp add: getBoolean_def get_def has_def)
  from 1 2 3 4 5 6 7 show ?thesis
    by blast
qed

theorem getBoolean_total_witness:
  "has \<lparr>name = ''cfg'', data = JObj [(''a'', JArr [])]\<rparr> ''a'' = Inr True
   \<and> get \<lparr>name = ''cfg'', data = JObj [(''a'', JArr [])]\<rparr> ''a'' None = Inr (JArr [])
   \<and> getBoolean \<lparr>name = ''cfg'', data = JObj [(''a'', JArr [])]\<rparr> ''a'' None = Inr (JBool True)
   \<and> is_object (data \<lparr>name = ''cfg'', data = JObj [(''a'', JArr [])]\<rparr>)
   \<and> getBoolean \<lparr>name = ''cfg'', data = JObj [(''a'', JArr [])]\<rparr> ''k'' None
       = Inl (ReferenceError ''Missing key k in cfg'')
   \<and> has \<lparr>name = ''cfg'', data = JObj [(''a'', JArr [])]\<rparr> ''k'' = Inr False
   \<and> getBoolean \<lparr>name = ''cfg'', data = JObj [(''a'', JArr [])]\<rparr> ''k''
       (Some (JNum NaN)) = Inr (JBool False)"
  using
    getBoolean_total [where d = "\<lparr>name = ''cfg'', data = JObj [(''a'', JArr [])]\<rparr>"
      and key = "''a''" and fb = None and v = "JArr []" and b = True
      and e = "ReferenceError []"]
    getBoolean_total [where d = "\<lparr>name = ''cfg'', data = JObj [(''a'', JArr [])]\<rparr>"
      and key = "''k''" and fb = None and v = "JArr []" and b = True
      and e = "ReferenceError ''Missing key k in cfg''"]
    getBoolean_total [where d = "\<lparr>name = ''cfg'', data = JObj [(''a'', JArr [])]\<rparr>"
      and key = "''k''" and fb = "Some (JNum NaN)" and v = "JNum NaN" and b = True
      and e = "ReferenceError []"]
  by (simp add: has_def get_def getBoolean_def is_object_def missing_key_def)

section \<open>getNumber\<close>

text \<open>
  C3. \<open>getNumber\<close> resolves the value by the raw lookup. A string that contains a
  decimal point goes through \<open>parseFloat\<close>, a string without one through \<open>parseInt\<close>,
  and any other value is left as it is. The call returns the value after this step when
  it is a finite number, and fails with the type-mismatch \<open>TypeError\<close> in every other
  case: a parse that gives \<open>NaN\<close>, an infinite value, a value that is neither a number
  nor a string. With the concrete runtime, \<open>"3.14"\<close> gives 3.14, \<open>"42"\<close> gives 42 and
  \<open>"abc"\<close> fails.
\<close>

theorem getNumber_parse_then_validate:
  "(get d key fb = Inr (JStr s) \<and> CHR ''.'' \<in> set s \<longrightarrow>
      getNumber rt d key fb =
        (case parseFloat rt s of
           Finite q \<Rightarrow> Inr (JNum (Finite q))
         | n \<Rightarrow> Inl (TypeError (''Invalid value for '' @ key @ '' in '' @ name d
               @ '' (expected number, got: '' @ inspect rt (JNum n) @ '')''))))
   \<and> (get d key fb = Inr (JStr s) \<and> CHR ''.'' \<notin> set s \<longrightarrow>
      getNumber rt d key fb =
        (case parseInt rt s of
           Finite q \<Rightarrow> Inr (JNum (Finite q))
         | n \<Rightarrow> Inl (TypeError (''Invalid value for '' @ key @ '' in '' @ name d
               @ '' (expected number, got: '' @ inspect rt (JNum n) @ '')''))))
   \<and> (get d key fb = Inr (JNum n) \<longrightarrow>
      getNumber rt d key fb =
        (case n of
           Finite q \<Rightarrow> Inr (JNum (Finite q))
         | _ \<Rightarrow> Inl (TypeError (''Invalid value for '' @ key @ '' in '' @ name d
               @ '' (expected number, got: '' @ inspect rt (JNum n) @ '')''))))
   \<and> (get d key fb = Inr v \<and> typeof v \<noteq> ''string'' \<and> typeof v \<noteq> ''number'' \<longrightarrow>
      getNumber rt d key fb =
        Inl (TypeError (''Invalid value for '' @ key @ '' in '' @ name d
               @ '' (expected number, got: '' @ inspect rt v @ '')'')))
   \<and> getNumber sample_runtime \<lparr>name = ''cfg'', data = JObj [(''k'', JStr ''3.14'')]\<rparr> ''k'' None
       = Inr (JNum (Finite (314 / 100)))
   \<and> getNumber sample_runtime \<lparr>name = ''cfg'', data = JObj [(''k'', JStr ''42'')]\<rparr> ''k'' None
       = Inr (JNum (Finite 42))
   \<and> getNumber sample_runtime \<lparr>name = ''cfg'', data = JObj [(''k'', JStr ''abc'')]\<rparr> ''k'' None
       = Inl (TypeError ''Invalid value for k in cfg (expected number, got: NaN)'')"
proof -
  have g1: "(get d key fb = Inr (JStr s) \<and> CHR ''.'' \<in> set s \<longrightarrow>
      getNumber rt d key fb =
        (case parseFloat rt s of
           Finite q \<Rightarrow> Inr (JNum (Finite q))
         | n \<Rightarrow> Inl (TypeError (''Invalid value for '' @ key @ '' in '' @ name d
               @ '' (expected number, got: '' @ inspect rt (JNum n) @ '')''))))"
    by (simp add: getNumber_def Let_def invalid_value_def split: number.splits)
  have g2: "(get d key fb = Inr (JStr s) \<and> CHR ''.'' \<notin> set s \<longrightarrow>
      getNumber rt d key fb =
        (case parseInt rt s of
           Finite q \<Rightarrow> Inr (JNum (Finite q))
         | n \<Rightarrow> Inl (TypeError (''Invalid value for '' @ key @ '' in '' @ name d
               @ '' (expected number, got: '' @ inspect rt (JNum n) @ '')''))))"
    by (simp add: getNumber_def Let_def invalid_value_def split: number.splits)
  have g3: "(get d key fb = Inr (JNum n) \<longrightarrow>
      getNumber rt d key fb =
        (case n of
           Finite q \<Rightarrow> Inr (JNum (Finite q))
         | _ \<Rightarrow> Inl (TypeError (''Invalid value for '' @ key @ '' in '' @ name d
               @ '' (expected number, got: '' @ inspect rt (JNum n) @ '')''))))"
    by (simp add: getNumber_def Let_def invalid_value_def split: number.splits)
  have g4: "(get d key fb = Inr v \<and> typeof v \<noteq> ''string'' \<and> typeof v \<noteq> ''number'' \<longrightarrow>
      getNumber rt d key fb =
        Inl (TypeError (''Invalid value for '' @ key @ '' in '' @ name d
               @ '' (expected number, got: '' @ inspect rt v @ '')'')))"
    by (simp add: getNumber_def Let_def invalid_value_def split: number.splits)
  have 1: "getNumber sample_runtime \<lparr>name = ''cfg'', data = JObj [(''k'', JStr ''3.14'')]\<rparr>
      ''k'' None = Inr (JNum (Finite (314 / 100)))"
    by code_simp
  have 2: "getNumber sample_runtime \<lparr>name = ''cfg'', data = JObj [(''k'', JStr ''42'')]\<rparr>
      ''k'' None = Inr (JNum (Finite 42))"
    by code_simp
  have 3: "getNumber sample_runtime \<lparr>name = ''cfg'', data = JObj [(''k'', JStr ''abc'')]\<rparr>
      ''k'' None = Inl (TypeError ''Invalid value for k in cfg (expected number, got: NaN)'')"
    by code_simp
  show ?thesis
    by (intro conjI) fact+
qed

theorem getNumber_parse_then_validate_witness:
  "get \<lparr>name = ''cfg'', data = JObj [(''a'', JStr ''1.5e2x''), (''b'', JStr ''12px'')]\<rparr> ''a'' None
     = Inr (JStr ''1.5e2x'')
   \<and> CHR ''.'' \<in> set ''1.5e2x''
   \<and> getNumber sample_runtime
       \<lparr>name = ''cfg'', data = JObj [(''a'', JStr ''1.5e2x''), (''b'', JStr ''12px'')]\<rparr> ''a'' None
       = Inr (JNum (Finite 150))
   \<and> get \<lparr>name = ''cfg'', data = JObj [(''a'', JStr ''1.5e2x''), (''b'', JStr ''12px'')]\<rparr> ''b'' None
     = Inr (JStr ''12px'')
   \<and> CHR ''.'' \<notin> set ''12px''
   \<and> getNumber sample_runtime
       \<lparr>name = ''cfg'', data = JObj [(''a'', JStr ''1.5e2x''), (''b'', JStr ''12px'')]\<rparr> ''b'' None
       = Inr (JNum (Finite 12))
   \<and> getNumber sample_runtime
       \<lparr>name = ''cfg'', data = JObj [(''a'', JStr ''1.5e2x''), (''b'', JStr ''12px'')]\<rparr> ''k''
       (Some (JNum PosInfinity))
       = Inl (TypeError ''Invalid value for k in cfg (expected number, got: Infinity)'')
   \<and> getNumber sample_runtime
       \<lparr>name = ''cfg'', data = JObj [(''a'', JStr ''1.5e2x''), (''b'', JStr ''12px'')]\<rparr> ''k''
       (Some (JBool True))
       = Inl (TypeError ''Invalid value for k in cfg (expected number, got: true)'')"
proof -
  let ?d = "\<lparr>name = ''cfg'', data = JObj [(''a'', JStr ''1.5e2x''), (''b'', JStr ''12px'')]\<rparr>"
  have a: "get ?d ''a'' None = Inr (JStr ''1.5e2x'')"
    by (simp add: get_def has_def)
  have b: "get ?d ''b'' None = Inr (JStr ''12px'')"
    by (simp add: get_def has_def)
  have i: "get ?d ''k'' (Some (JNum PosInfinity)) = Inr (JNum PosInfinity)"
    by (simp add: get_def has_def)
  have t: "get ?d ''k'' (Some (JBool True)) = Inr (JBool True)"
    by (simp add: get_def has_def)
  have pf: "parseFloat sample_runtime ''1.5e2x'' = Finite 150"
    unfolding sample_runtime_def by code_simp
  have pi: "parseInt sample_runtime ''12px'' = Finite 12"
    unfolding sample_runtime_def by code_simp
  show ?thesis
    using
      getNumber_parse_then_validate [where d = ?d and key = "''a''" and fb = None
        and s = "''1.5e2x''" and rt = sample_runtime and n = NaN and v = JNull]
      getNumber_parse_then_validate [where d = ?d and key = "''b''" and fb = None
        and s = "''12px''" and rt = sample_runtime and n = NaN and v = JNull]
      getNumber_parse_then_validate [where d = ?d and key = "''k''"
        and fb = "Some (JNum PosInfinity)"
        and s = "''''" and rt = sample_runtime and n = PosInfinity and v = JNull]
      getNumber_parse_then_validate [where d = ?d and key = "''k''"
        and fb = "Some (JBool True)"
        and s = "''''" and rt = sample_runtime and n = NaN and v = "JBool True"]
      a b i t pf pi
    by (simp add: sample_runtime_def)
qed

section \<open>getDate\<close>

text \<open>
  C4. \<open>getDate\<close> checks in order. A \<open>Date\<close> is returned as it is. A string is given
  to \<open>Date.parse\<close> and yields the date of the parsed timestamp only when that is
  finite and strictly positive. A number yields the date of that timestamp only when it
  is finite and strictly positive. Every other resolved value fails with the
  type-mismatch \<open>TypeError\<close>: a string that does not parse or parses to a timestamp
  that is not positive, zero, a negative number, \<open>NaN\<close>, an infinity, and every value
  that is neither a date, a string nor a number.
\<close>

theorem getDate_order:
  "(get d key fb = Inr (JDate t) \<longrightarrow> getDate rt d key fb = Inr (JDate t))
   \<and> (get d key fb = Inr (JStr s) \<longrightarrow>
      getDate rt d key fb =
        (case Date_parse rt s of
           Finite q \<Rightarrow>
             if q > 0 then Inr (new_Date (Finite q))
             else Inl (TypeError (''Invalid value for '' @ key @ '' in '' @ name d
                 @ '' (expected date, got: '' @ inspect rt (JStr s) @ '')''))
         | _ \<Rightarrow> Inl (TypeError (''Invalid value for '' @ key @ '' in '' @ name d
                 @ '' (expected date, got: '' @ inspect rt (JStr s) @ '')''))))
   \<and> (get d key fb = Inr (JNum n) \<longrightarrow>
      getDate rt d key fb =
        (case n of
           Finite q \<Rightarrow>
             if q > 0 then Inr (new_Date (Finite q))
             else Inl (TypeError (''Invalid value for '' @ key @ '' in '' @ name d
                 @ '' (expected date, got: '' @ inspect rt (JNum n) @ '')''))
         | _ \<Rightarrow> Inl (TypeError (''Invalid value for '' @ key @ '' in '' @ name d
                 @ '' (expected date, got: '' @ inspect rt (JNum n) @ '')''))))
   \<and> (get d key fb = Inr v \<and> \<not> instanceof_Date v
        \<and> typeof v \<noteq> ''string'' \<and> typeof v \<noteq> ''number'' \<longrightarrow>
      getDate rt d key fb =
        Inl (TypeError (''Invalid value for '' @ key @ '' in '' @ name d
               @ '' (expected date, got: '' @ inspect rt v @ '')'')))
   \<and> (Date_parse rt ''not-a-date'' = NaN \<longrightarrow>
      getDate rt \<lparr>name = ''cfg'', data = JObj [(''k'', JStr ''not-a-date'')]\<rparr> ''k'' None
        = Inl (TypeError (''Invalid value for k in cfg (expected date, got: ''
               @ inspect rt (JStr ''not-a-date'') @ '')'')))
   \<and> getDate rt \<lparr>name = ''cfg'', data = JObj [(''k'', JNum (Finite 0))]\<rparr> ''k'' None
       = Inl (TypeError (''Invalid value for k in cfg (expected date, got: ''
               @ inspect rt (JNum (Finite 0)) @ '')''))
   \<and> getDate rt \<lparr>name = ''cfg'', data = JObj [(''k'', JNum (Finite (- 1)))]\<rparr> ''k'' None
       = Inl (TypeError (''Invalid value for k in cfg (expected date, got: ''
               @ inspect rt (JNum (Finite (- 1))) @ '')''))
   \<and> getDate rt \<lparr>name = ''cfg'', data = JObj [(''k'', JNum (Finite 1000))]\<rparr> ''k'' None
       = Inr (JDate (Date (Finite 1000)))"
proof -
  have g1: "get d key fb = Inr (JDate t) \<longrightarrow> getDate rt d key fb = Inr (JDate t)"
    by (simp add: getDate_def)
  have g2: "get d key fb = Inr (JStr s) \<longrightarrow>
      getDate rt d key fb =
        (case Date_parse rt s of
           Finite q \<Rightarrow>
             if q > 0 then Inr (new_Date (Finite q))
             else Inl (TypeError (''Invalid value for '' @ key @ '' in '' @ name d
                 @ '' (expected date, got: '' @ inspect rt (JStr s) @ '')''))
         | _ \<Rightarrow> Inl (TypeError (''Invalid value for '' @ key @ '' in '' @ name d
                 @ '' (expected date, got: '' @ inspect rt (JStr s) @ '')'')))"
    by (simp add: getDate_def invalid_value_def split: number.splits)
  have g3: "get d key fb = Inr (JNum n) \<longrightarrow>
      getDate rt d key fb =
        (case n of
           Finite q \<Rightarrow>
             if q > 0 then Inr (new_Date (Finite q))
             else Inl (TypeError (''Invalid value for '' @ key @ '' in '' @ name d
                 @ '' (expected date, got: '' @ inspect rt (JNum n) @ '')''))
         | _ \<Rightarrow> Inl (TypeError (''Invalid value for '' @ key @ '' in '' @ name d
                 @ '' (expected date, got: '' @ inspect rt (JNum n) @ '')'')))"
    by (simp add: getDate_def invalid_value_def split: number.splits)
  have g4: "get d key fb = Inr v \<and> \<not> instanceof_Date v
        \<and> typeof v \<noteq> ''string'' \<and> typeof v \<noteq> ''number'' \<longrightarrow>
      getDate rt d key fb =
        Inl (TypeError (''Invalid value for '' @ key @ '' in '' @ name d
               @ '' (expected date, got: '' @ inspect rt v @ '')''))"
    by (simp add: getDate_def invalid_value_def)
  have e1: "Date_parse rt ''not-a-date'' = NaN \<longrightarrow>
      getDate rt \<lparr>name = ''cfg'', data = JObj [(''k'', JStr ''not-a-date'')]\<rparr> ''k'' None
        = Inl (TypeError (''Invalid value for k in cfg (expected date, got: ''
               @ inspect rt (JStr ''not-a-date'') @ '')''))"
    by (simp add: getDate_def get_def has_def invalid_value_def)
  have e2: "getDate rt \<lparr>name = ''cfg'', data = JObj [(''k'', JNum (Finite 0))]\<rparr> ''k'' None
       = Inl (TypeError (''Invalid value for k in cfg (expected date, got: ''
               @ inspect rt (JNum (Finite 0)) @ '')''))"
    by (simp add: getDate_def get_def has_def invalid_value_def)
  have e3: "getDate rt \<lparr>name = ''cfg'', data = JObj [(''k'', JNum (Finite (- 1)))]\<rparr> ''k'' None
       = Inl (TypeError (''Invalid value for k in cfg (expected date, got: ''
               @ inspect rt (JNum (Finite (- 1))) @ '')''))"
    by (simp add: getDate_def get_def has_def invalid_value_def)
  have e4: "getDate rt \<lparr>name = ''cfg'', data = JObj [(''k'', JNum (Finite 1000))]\<rparr> ''k'' None
       = Inr (JDate (Date (Finite 1000)))"
    by (simp add: getDate_def get_def has_def new_Date_def)
  show ?thesis
    by (intro conjI) fact+
qed

theorem getDate_order_witness:
  "get \<lparr>name = ''cfg'', data = JObj [(''d'', JDate (Date NaN)),
        (''s'', JStr ''1970-01-02T00:00:00.000Z''), (''p'', JStr ''1969-12-31T00:00:00.000Z''),
        (''n'', JNum (Finite (3 / 2))), (''b'', JBool True)]\<rparr> ''d'' None
     = Inr (JDate (Date NaN))
   \<and> getDate sample_runtime \<lparr>name = ''cfg'', data = JObj [(''d'', JDate (Date NaN)),
        (''s'', JStr ''1970-01-02T00:00:00.000Z''), (''p'', JStr ''1969-12-31T00:00:00.000Z''),
        (''n'', JNum (Finite (3 / 2))), (''b'', JBool True)]\<rparr> ''d'' None
     = Inr (JDate (Date NaN))
   \<and> getDate sample_runtime \<lparr>name = ''cfg'', data = JObj [(''d'', JDate (Date NaN)),
        (''s'', JStr ''1970-01-02T00:00:00.000Z''), (''p'', JStr ''1969-12-31T00:00:00.000Z''),
        (''n'', JNum (Finite (3 / 2))), (''b'', JBool True)]\<rparr> ''s'' None
     = Inr (JDate (Date (Finite 86400000)))
   \<and> getDate sample_runtime \<lparr>name = ''cfg'', data = JObj [(''d'', JDate (Date NaN)),
        (''s'', JStr ''1970-01-02T00:00:00.000Z''), (''p'', JStr ''1969-12-31T00:00:00.000Z''),
        (''n'', JNum (Finite (3 / 2))), (''b'', JBool True)]\<rparr> ''p'' None
     = Inl (TypeError (''Invalid value for p in cfg (expected date, got: ''
            @ [CHR 0x27] @ ''1969-12-31T00:00:00.000Z'' @ [CHR 0x27] @ '')''))
   \<and> getDate sample_runtime \<lparr>name = ''cfg'', data = JObj [(''d'', JDate (Date NaN)),
        (''s'', JStr ''1970-01-02T00:00:00.000Z''), (''p'', JStr ''1969-12-31T00:00:00.000Z''),
        (''n'', JNum (Finite (3 / 2))), (''b'', JBool True)]\<rparr> ''n'' None
     = Inr (JDate (Date (Finite 1)))
   \<and> getDate sample_runtime \<lparr>name = ''cfg'', data = JObj [(''d'', JDate (Date NaN)),
        (''s'', JStr ''1970-01-02T00:00:00.000Z''), (''p'', JStr ''1969-12-31T00:00:00.000Z''),
        (''n'', JNum (Finite (3 / 2))), (''b'', JBool True)]\<rparr> ''b'' None
     = Inl (TypeError ''Invalid value for b in cfg (expected date, got: true)'')
   \<and> Date_parse sample_runtime ''not-a-date'' = NaN
   \<and> getDate sample_runtime \<lparr>name = ''cfg'', data = JObj [(''k'', JStr ''not-a-date'')]\<rparr>
        ''k'' None
     = Inl (TypeError (''Invalid value for k in cfg (expected date, got: ''
            @ [CHR 0x27] @ ''not-a-date'' @ [CHR 0x27] @ '')''))"
proof -
  let ?d = "\<lparr>name = ''cfg'', data = JObj [(''d'', JDate (Date NaN)),
        (''s'', JStr ''1970-01-02T00:00:00.000Z''), (''p'', JStr ''1969-12-31T00:00:00.000Z''),
        (''n'', JNum (Finite (3 / 2))), (''b'', JBool True)]\<rparr>"
  have gd: "get ?d ''d'' None = Inr (JDate (Date NaN))"
    and gs: "get ?d ''s'' None = Inr (JStr ''1970-01-02T00:00:00.000Z'')"
    and gp: "get ?d ''p'' None = Inr (JStr ''1969-12-31T00:00:00.000Z'')"
    and gn: "get ?d ''n'' None = Inr (JNum (Finite (3 / 2)))"
    and gb: "get ?d ''b'' None = Inr (JBool True)"
    by (simp_all add: get_def has_def)
  have ps: "Date_parse sample_runtime ''1970-01-02T00:00:00.000Z'' = Finite 86400000"
    and pp: "Date_parse sample_runtime ''1969-12-31T00:00:00.000Z'' = Finite (- 86400000)"
    and pn: "Date_parse sample_runtime ''not-a-date'' = NaN"
    by (simp_all add: sample_runtime_def sample_Date_parse_def)
  have fl: "\<lfloor>3 / 2 :: rat\<rfloor> = 1"
    by (simp add: floor_eq_iff)
  show ?thesis
    using
      getDate_order [where d = ?d and key = "''d''" and fb = None and rt = sample_runtime
        and t = "Date NaN" and s = "''''" and n = NaN and v = JNull]
      getDate_order [where d = ?d and key = "''s''" and fb = None and rt = sample_runtime
        and t = "Date NaN" and s = "''1970-01-02T00:00:00.000Z''" and n = NaN and v = JNull]
      getDate_order [where d = ?d and key = "''p''" and fb = None and rt = sample_runtime
        and t = "Date NaN" and s = "''1969-12-31T00:00:00.000Z''" and n = NaN and v = JNull]
      getDate_order [where d = ?d and key = "''n''" and fb = None and rt = sample_runtime
        and t = "Date NaN" and s = "''''" and n = "Finite (3 / 2)" and v = JNull]
      getDate_order [where d = ?d and key = "''b''" and fb = None and rt = sample_runtime
        and t = "Date NaN" and s = "''''" and n = NaN and v = "JBool True"]
      gd gs gp gn gb ps pp pn fl
    by (simp add: sample_runtime_def new_Date_def)
qed

section \<open>getObjectArray\<close>

text \<open>The index in a child's name is the decimal numeral of the position.\<close>

lemma digit_val_nth: "n < 10 \<Longrightarrow> digit_val (''0123456789'' ! n) = n"
proof -
  assume "n < 10"
  then have "n \<in> {0, 1, 2, 3, 4, 5, 6, 7, 8, 9}"
    by auto
  then show ?thesis
    by (auto simp: digit_val_def)
qed

lemma is_digit_nth: "n < 10 \<Longrightarrow> is_digit (''0123456789'' ! n)"
proof -
  assume "n < 10"
  then have "n \<in> {0, 1, 2, 3, 4, 5, 6, 7, 8, 9}"
    by auto
  then show ?thesis
    by (auto simp: is_digit_def)
qed

lemma digits_val_snoc: "digits_val (s @ [c]) = digits_val s * 10 + digit_val c"
  by (simp add: digits_val_def)

lemma show_nat_decimal: "digits_val (show_nat n) = n \<and> list_all is_digit (show_nat n)"
proof (induction n rule: show_nat.induct)
  case (1 n)
  show ?case
  proof (cases "n < 10")
    case True
    then show ?thesis
      by (simp add: show_nat.simps [of n] digits_val_def digit_val_nth is_digit_nth)
  next
    case False
    with 1 have "digits_val (show_nat (n div 10)) = n div 10"
      and "list_all is_digit (show_nat (n div 10))"
      by simp_all
    with False show ?thesis
      by (simp add: show_nat.simps [of n] digits_val_snoc digit_val_nth is_digit_nth)
  qed
qed

lemma new_DataPicker_object:
  "is_object v \<Longrightarrow> new_DataPicker rt nm v = Inr \<lparr>name = nm, data = v\<rparr>"
  by (simp add: new_DataPicker_def is_object_def)

lemma map_items_objects:
  "\<forall>x \<in> set xs. is_object x \<Longrightarrow>
     map_items rt d key whole i xs =
       Inr (map (\<lambda>j. \<lparr>name = name d @ ''.'' @ key @ ''['' @ show_nat (i + j) @ '']'',
                        data = xs ! j\<rparr>) [0..<length xs])"
proof (induction xs arbitrary: i)
  case Nil
  then show ?case by simp
next
  case (Cons x xs)
  then have x: "is_object x" and xs: "\<forall>y \<in> set xs. is_object y"
    by simp_all
  from x have tx: "typeof x = ''object''" "x \<noteq> JNull"
    by (simp_all add: is_object_def)
  show ?case
    by (simp only: map_items.simps tx new_DataPicker_object [OF x] Cons.IH [OF xs]
        length_Cons map_upt_Suc)
      simp
qed

lemma map_items_not_object:
  "\<exists>x \<in> set xs. \<not> is_object x \<Longrightarrow>
     map_items rt d key whole i xs = Inl (invalid_value rt d key ''object'' (JArr whole))"
proof (induction xs arbitrary: i)
  case Nil
  then show ?case by simp
next
  case (Cons x xs)
  show ?case
  proof (cases "is_object x")
    case False
    then show ?thesis
      by (auto simp: is_object_def)
  next
    case True
    with Cons.prems have "\<exists>y \<in> set xs. \<not> is_object y"
      by auto
    then have "map_items rt d key whole (Suc i) xs
        = Inl (invalid_value rt d key ''object'' (JArr whole))"
      by (rule Cons.IH)
    with True show ?thesis
      by (simp add: new_DataPicker_object is_object_def)
  qed
qed

lemma getObjectArray_array:
  "get d key fb = Inr (JArr xs) \<Longrightarrow> getObjectArray rt d key fb = map_items rt d key xs 0 xs"
  by (simp add: getObjectArray_def getArray_def)

text \<open>
  C6. When the key resolves to an array whose elements are all non-null structured
  values, \<open>getObjectArray\<close> returns one child accessor per element, in the order of the
  array; the child at position \<open>i\<close>, from zero, wraps the element at \<open>i\<close> and is named
  \<open>name.key[i]\<close>. When some element is not a non-null structured value, the whole
  call fails with the type-mismatch \<open>TypeError\<close>.
\<close>

theorem getObjectArray_children:
  "(get d key fb = Inr (JArr xs) \<and> (\<forall>x \<in> set xs. typeof x = ''object'' \<and> x \<noteq> JNull) \<longrightarrow>
      getObjectArray rt d key fb =
        Inr (map (\<lambda>i. \<lparr>name = name d @ ''.'' @ key @ ''['' @ show_nat i @ '']'',
                         data = xs ! i\<rparr>) [0..<length xs]))
   \<and> (get d key fb = Inr (JArr xs) \<and> (\<exists>x \<in> set xs. \<not> (typeof x = ''object'' \<and> x \<noteq> JNull)) \<longrightarrow>
      getObjectArray rt d key fb =
        Inl (TypeError (''Invalid value for '' @ key @ '' in '' @ name d
               @ '' (expected object, got: '' @ inspect rt (JArr xs) @ '')'')))
   \<and> getObjectArray rt
        \<lparr>name = ''root'', data = JObj [(''items'', JArr [JObj [(''a'', JNum (Finite 1))]])]\<rparr>
        ''items'' None
       = Inr [\<lparr>name = ''root.items[0]'', data = JObj [(''a'', JNum (Finite 1))]\<rparr>]
   \<and> getObjectArray rt
        \<lparr>name = ''root'',
         data = JObj [(''items'', JArr [JObj [(''a'', JNum (Finite 1))], JStr ''bad''])]\<rparr>
        ''items'' None
       = Inl (TypeError (''Invalid value for items in root (expected object, got: ''
              @ inspect rt (JArr [JObj [(''a'', JNum (Finite 1))], JStr ''bad'']) @ '')''))"
proof -
  have g1: "get d key fb = Inr (JArr xs) \<and> (\<forall>x \<in> set xs. typeof x = ''object'' \<and> x \<noteq> JNull) \<longrightarrow>
      getObjectArray rt d key fb =
        Inr (map (\<lambda>i. \<lparr>name = name d @ ''.'' @ key @ ''['' @ show_nat i @ '']'',
                         data = xs ! i\<rparr>) [0..<length xs])"
    using map_items_objects [of xs rt d key xs 0]
    by (simp add: getObjectArray_array is_object_def)
  have g2: "get d key fb = Inr (JArr xs) \<and> (\<exists>x \<in> set xs. \<not> (typeof x = ''object'' \<and> x \<noteq> JNull)) \<longrightarrow>
      getObjectArray rt d key fb =
        Inl (TypeError (''Invalid value for '' @ key @ '' in '' @ name d
               @ '' (expected object, got: '' @ inspect rt (JArr xs) @ '')''))"
    using map_items_not_object [of xs rt d key xs 0]
    by (auto simp: getObjectArray_array is_object_def invalid_value_def)
  have e1: "getObjectArray rt
        \<lparr>name = ''root'', data = JObj [(''items'', JArr [JObj [(''a'', JNum (Finite 1))]])]\<rparr>
        ''items'' None
       = Inr [\<lparr>name = ''root.items[0]'', data = JObj [(''a'', JNum (Finite 1))]\<rparr>]"
    by (simp add: getObjectArray_def getArray_def get_def has_def new_DataPicker_def
        show_nat.simps [of 0])
  have e2: "getObjectArray rt
        \<lparr>name = ''root'',
         data = JObj [(''items'', JArr [JObj [(''a'', JNum (Finite 1))], JStr ''bad''])]\<rparr>
        ''items'' None
       = Inl (TypeError (''Invalid value for items in root (expected object, got: ''
              @ inspect rt (JArr [JObj [(''a'', JNum (Finite 1))], JStr ''bad'']) @ '')''))"
    by (simp add: getObjectArray_def getArray_def get_def has_def new_DataPicker_def
        invalid_value_def show_nat.simps [of 0])
  show ?thesis
    by (intro conjI) fact+
qed

theorem getObjectArray_children_witness:
  "get \<lparr>name = ''root'', data = JObj [(''items'', JArr [JObj [], JArr [], JDate (Date NaN)]),
          (''mixed'', JArr [JObj [], JNull])]\<rparr> ''items'' None
     = Inr (JArr [JObj [], JArr [], JDate (Date NaN)])
   \<and> getObjectArray sample_runtime
        \<lparr>name = ''root'', data = JObj [(''items'', JArr [JObj [], JArr [], JDate (Date NaN)]),
          (''mixed'', JArr [JObj [], JNull])]\<rparr> ''items'' None
     = Inr [\<lparr>name = ''root.items[0]'', data = JObj []\<rparr>,
            \<lparr>name = ''root.items[1]'', data = JArr []\<rparr>,
            \<lparr>name = ''root.items[2]'', data = JDate (Date NaN)\<rparr>]
   \<and> get \<lparr>name = ''root'', data = JObj [(''items'', JArr [JObj [], JArr [], JDate (Date NaN)]),
          (''mixed'', JArr [JObj [], JNull])]\<rparr> ''mixed'' None
     = Inr (JArr [JObj [], JNull])
   \<and> getObjectArray sample_runtime
        \<lparr>name = ''root'', data = JObj [(''items'', JArr [JObj [], JArr [], JDate (Date NaN)]),
          (''mixed'', JArr [JObj [], JNull])]\<rparr> ''mixed'' None
     = Inl (TypeError ''Invalid value for mixed in root (expected object, got: [Array])'')"
proof -
  let ?d = "\<lparr>name = ''root'', data = JObj [(''items'', JArr [JObj [], JArr [], JDate (Date NaN)]),
          (''mixed'', JArr [JObj [], JNull])]\<rparr>"
  have gi: "get ?d ''items'' None = Inr (JArr [JObj [], JArr [], JDate (Date NaN)])"
    and gm: "get ?d ''mixed'' None = Inr (JArr [JObj [], JNull])"
    by (simp_all add: get_def has_def)
  have idx: "[0..<3] = [0, 1, 2]" "[0..<2] = [0, 1]"
    by (simp_all add: upt_rec)
  have sn: "show_nat 0 = ''0''" "show_nat (Suc 0) = ''1''" "show_nat (Suc (Suc 0)) = ''2''"
    by (simp_all add: show_nat.simps [of 0] show_nat.simps [of "Suc 0"]
        show_nat.simps [of "Suc (Suc 0)"])
  show ?thesis
    using
      getObjectArray_children [where d = ?d and key = "''items''" and fb = None
        and xs = "[JObj [], JArr [], JDate (Date NaN)]" and rt = sample_runtime]
      getObjectArray_children [where d = ?d and key = "''mixed''" and fb = None
        and xs = "[JObj [], JNull]" and rt = sample_runtime]
      gi gm
    by (simp add: idx sn sample_runtime_def)
qed

section \<open>Error messages\<close>

lemma missing_key_mentions:
  "\<exists>m. missing_key d key = ReferenceError m \<and> sublist key m \<and> sublist (name d) m"
proof -
  have "sublist key (''Missing key '' @ key @ '' in '' @ name d)"
    by (rule sublist_appendI)
  moreover have "sublist (name d) ((''Missing key '' @ key @ '' in '') @ name d)"
    by (rule sublist_append_leftI)
  ultimately show ?thesis
    by (simp add: missing_key_def)
qed

lemma invalid_value_mentions:
  "\<exists>m. invalid_value rt d key T v = TypeError m
     \<and> sublist key m \<and> sublist (name d) m \<and> sublist T m \<and> sublist (inspect rt v) m"
proof -
  let ?m = "''Invalid value for '' @ key @ '' in '' @ name d
              @ '' (expected '' @ T @ '', got: '' @ inspect rt v @ '')''"
  have "sublist key ?m"
    by (rule sublist_appendI)
  moreover have "sublist (name d) ((''Invalid value for '' @ key @ '' in '') @ name d
      @ ('' (expected '' @ T @ '', got: '' @ inspect rt v @ '')''))"
    by (rule sublist_appendI)
  moreover have "sublist T ((''Invalid value for '' @ key @ '' in '' @ name d
      @ '' (expected '') @ T @ ('', got: '' @ inspect rt v @ '')''))"
    by (rule sublist_appendI)
  moreover have "sublist (inspect rt v) ((''Invalid value for '' @ key @ '' in '' @ name d
      @ '' (expected '' @ T @ '', got: '') @ inspect rt v @ '')'')"
    by (rule sublist_appendI)
  ultimately show ?thesis
    by (simp add: invalid_value_def)
qed

lemma get_fails:
  assumes "is_object (data d)" and "get d key fb = Inl e"
  shows "e = missing_key d key"
proof -
  from assms(1) obtain b where "has d key = Inr b"
    using has_object by blast
  with assms(2) show ?thesis
    by (cases b) (auto simp: get_def split: if_splits)
qed

lemma getString_fails:
  assumes "is_object (data d)" and "getString rt d key fb = Inl e"
  shows "(get d key fb = Inl e \<and> e = missing_key d key)
    \<or> (\<exists>v. get d key fb = Inr v \<and> e = invalid_value rt d key ''string'' v)"
proof (cases "get d key fb")
  case (Inl e')
  with assms show ?thesis
    by (simp add: getString_def get_fails)
next
  case (Inr v)
  with assms(2) show ?thesis
    by (auto simp: getString_def split: if_splits)
qed

lemma getNumber_fails:
  assumes "is_object (data d)" and "getNumber rt d key fb = Inl e"
  shows "(get d key fb = Inl e \<and> e = missing_key d key)
    \<or> (\<exists>v. e = invalid_value rt d key ''number'' v
          \<and> (get d key fb = Inr v
               \<or> (\<exists>s. get d key fb = Inr (JStr s)
                     \<and> (v = JNum (parseFloat rt s) \<or> v = JNum (parseInt rt s)))))"
proof (cases "get d key fb")
  case (Inl e')
  with assms show ?thesis
    by (simp add: getNumber_def get_fails)
next
  case (Inr v)
  with assms(2) show ?thesis
    by (cases v) (auto simp: getNumber_def Let_def split: if_splits)
qed

lemma getBoolean_fails_lookup:
  assumes "is_object (data d)" and "getBoolean d key fb = Inl e"
  shows "get d key fb = Inl e \<and> e = missing_key d key"
proof (cases "get d key fb")
  case (Inl e')
  with assms show ?thesis
    by (simp add: getBoolean_def get_fails)
next
  case (Inr v)
  with assms(2) show ?thesis
    by (auto simp: getBoolean_def split: if_splits)
qed

lemma getDate_fails:
  assumes "is_object (data d)" and "getDate rt d key fb = Inl e"
  shows "(get d key fb = Inl e \<and> e = missing_key d key)
    \<or> (\<exists>v. get d key fb = Inr v \<and> e = invalid_value rt d key ''date'' v)"
proof (cases "get d key fb")
  case (Inl e')
  with assms show ?thesis
    by (simp add: getDate_def get_fails)
next
  case (Inr v)
  with assms(2) show ?thesis
    by (auto simp: getDate_def split: if_splits)
qed

lemma getArray_fails:
  assumes "is_object (data d)" and "getArray rt d key fb = Inl e"
  shows "(get d key fb = Inl e \<and> e = missing_key d key)
    \<or> (\<exists>v. get d key fb = Inr v \<and> e = invalid_value rt d key ''array'' v)"
proof (cases "get d key fb")
  case (Inl e')
  with assms show ?thesis
    by (simp add: getArray_def get_fails)
next
  case (Inr v)
  with assms(2) show ?thesis
    by (auto simp: getArray_def split: if_splits)
qed

lemma getArray_resolved:
  assumes "getArray rt d key fb = Inr xs"
  shows "get d key fb = Inr (JArr xs)"
proof (cases "get d key fb")
  case (Inl e)
  with assms show ?thesis
    by (simp add: getArray_def)
next
  case (Inr v)
  with assms show ?thesis
    by (cases v) (simp_all add: getArray_def)
qed

lemma getObject_fails:
  assumes "is_object (data d)" and "getObject rt d key fb = Inl e"
  shows "(get d key fb = Inl e \<and> e = missing_key d key)
    \<or> (\<exists>v. get d key fb = Inr v \<and> e = invalid_value rt d key ''object'' v)"
proof (cases "get d key fb")
  case (Inl e')
  with assms show ?thesis
    by (simp add: getObject_def get_fails)
next
  case (Inr v)
  with assms(2) show ?thesis
    by (auto simp: getObject_def new_DataPicker_def split: if_splits)
qed

lemma getRawObject_fails:
  assumes "is_object (data d)" and "getRawObject rt d key fb = Inl e"
  shows "(get d key fb = Inl e \<and> e = missing_key d key)
    \<or> (\<exists>v. get d key fb = Inr v \<and> e = invalid_value rt d key ''object'' v)"
proof (cases "get d key fb")
  case (Inl e')
  with assms show ?thesis
    by (simp add: getRawObject_def get_fails)
next
  case (Inr v)
  with assms(2) show ?thesis
    by (auto simp: getRawObject_def split: if_splits)
qed

lemma map_items_fails:
  "map_items rt d key whole i xs = Inl e \<Longrightarrow> e = invalid_value rt d key ''object'' (JArr whole)"
proof (cases "\<forall>x \<in> set xs. is_object x")
  case True
  assume "map_items rt d key whole i xs = Inl e"
  with map_items_objects [OF True] show ?thesis
    by simp
next
  case False
  assume "map_items rt d key whole i xs = Inl e"
  with False map_items_not_object [of xs rt d key whole i] show ?thesis
    by simp
qed

lemma getObjectArray_fails:
  assumes "is_object (data d)" and "getObjectArray rt d key fb = Inl e"
  shows "(get d key fb = Inl e \<and> e = missing_key d key)
    \<or> (\<exists>v. get d key fb = Inr v \<and> e = invalid_value rt d key ''array'' v)
    \<or> (\<exists>xs v. get d key fb = Inr (JArr xs) \<and> e = invalid_value rt d key ''object'' v)"
proof (cases "getArray rt d key fb")
  case (Inl e')
  with assms(2) have "getArray rt d key fb = Inl e"
    by (simp add: getObjectArray_def)
  with assms(1) show ?thesis
    using getArray_fails by blast
next
  case (Inr xs)
  then have arr: "get d key fb = Inr (JArr xs)"
    by (rule getArray_resolved)
  from Inr assms(2) have "map_items rt d key xs 0 xs = Inl e"
    by (simp add: getObjectArray_def)
  with arr show ?thesis
    using map_items_fails by blast
qed

lemma optional_fails:
  assumes "is_object (data d)"
  shows "getStringOptional rt d key = Inl e \<Longrightarrow>
      \<exists>v. get d key None = Inr v \<and> e = invalid_value rt d key ''string'' v"
    and "getNumberOptional rt d key = Inl e \<Longrightarrow>
      \<exists>v. e = invalid_value rt d key ''number'' v
          \<and> (get d key None = Inr v
               \<or> (\<exists>s. get d key None = Inr (JStr s)
                     \<and> (v = JNum (parseFloat rt s) \<or> v = JNum (parseInt rt s))))"
    and "getDateOptional rt d key = Inl e \<Longrightarrow>
      \<exists>v. get d key None = Inr v \<and> e = invalid_value rt d key ''date'' v"
    and "getBooleanOptional d key \<noteq> Inl e"
proof -
  from assms obtain b where b: "has d key = Inr b"
    using has_object by blast
  have present: "get d key None = Inr (getProp (data d) key)" if "b"
    using that b by (simp add: get_def)
  show "getStringOptional rt d key = Inl e \<Longrightarrow>
      \<exists>v. get d key None = Inr v \<and> e = invalid_value rt d key ''string'' v"
    using b present getString_fails [OF assms, of rt key None e]
    by (cases b) (auto simp: getStringOptional_def)
  show "getNumberOptional rt d key = Inl e \<Longrightarrow>
      \<exists>v. e = invalid_value rt d key ''number'' v
          \<and> (get d key None = Inr v
               \<or> (\<exists>s. get d key None = Inr (JStr s)
                     \<and> (v = JNum (parseFloat rt s) \<or> v = JNum (parseInt rt s))))"
    using b present getNumber_fails [OF assms, of rt key None e]
    by (cases b) (auto simp: getNumberOptional_def)
  show "getDateOptional rt d key = Inl e \<Longrightarrow>
      \<exists>v. get d key None = Inr v \<and> e = invalid_value rt d key ''date'' v"
    using b present getDate_fails [OF assms, of rt key None e]
    by (cases b) (auto simp: getDateOptional_def)
  show "getBooleanOptional d key \<noteq> Inl e"
    using b present getBoolean_fails_lookup [OF assms, of key None e]
    by (cases b) (auto simp: getBooleanOptional_def)
qed

text \<open>
  C7, as amended. The missing-key \<open>ReferenceError\<close> carries
  \<open>Missing key <key> in <name>\<close>: it contains the key and the accessor's name, and
  neither an expected type nor a value. The type-mismatch \<open>TypeError\<close> carries
  \<open>Invalid value for <key> in <name> (expected <type>, got: <inspect(v)>)\<close>: it
  contains the key, the accessor's name, the expected type name and the rendering of a
  value \<open>v\<close>. On an accessor over a non-null structured source every failure of a
  getter is one of the two. For \<open>getString\<close>, \<open>getDate\<close>, \<open>getArray\<close>,
  \<open>getObject\<close> and \<open>getRawObject\<close> the value rendered is the resolved value; for
  \<open>getNumber\<close> it is the value after the parse step. For an element of
  \<open>getObjectArray\<close> that is not an object the message has the key, the name and the
  type \<open>object\<close>; which value it renders is left open here.
\<close>

theorem error_messages:
  "(\<exists>m. missing_key d key = ReferenceError m \<and> sublist key m \<and> sublist (name d) m)
   \<and> (\<exists>m. invalid_value rt d key T v = TypeError m
         \<and> sublist key m \<and> sublist (name d) m \<and> sublist T m \<and> sublist (inspect rt v) m)
   \<and> (is_object (data d) \<and> getString rt d key fb = Inl e \<longrightarrow>
        (get d key fb = Inl e \<and> e = missing_key d key)
        \<or> (\<exists>v. get d key fb = Inr v \<and> e = invalid_value rt d key ''string'' v))
   \<and> (is_object (data d) \<and> getNumber rt d key fb = Inl e \<longrightarrow>
        (get d key fb = Inl e \<and> e = missing_key d key)
        \<or> (\<exists>v. e = invalid_value rt d key ''number'' v
              \<and> (get d key fb = Inr v
                   \<or> (\<exists>s. get d key fb = Inr (JStr s)
                         \<and> (v = JNum (parseFloat rt s) \<or> v = JNum (parseInt rt s))))))
   \<and> (is_object (data d) \<and> getBoolean d key fb = Inl e \<longrightarrow>
        get d key fb = Inl e \<and> e = missing_key d key)
   \<and> (is_object (data d) \<and> getDate rt d key fb = Inl e \<longrightarrow>
        (get d key fb = Inl e \<and> e = missing_key d key)
        \<or> (\<exists>v. get d key fb = Inr v \<and> e = invalid_value rt d key ''date'' v))
   \<and> (is_object (data d) \<and> getArray rt d key fb = Inl e \<longrightarrow>
        (get d key fb = Inl e \<and> e = missing_key d key)
        \<or> (\<exists>v. get d key fb = Inr v \<and> e = invalid_value rt d key ''array'' v))
   \<and> (is_object (data d) \<and> getObjectArray rt d key fb = Inl e \<longrightarrow>
        (get d key fb = Inl e \<and> e = missing_key d key)
        \<or> (\<exists>v. get d key fb = Inr v \<and> e = invalid_value rt d key ''array'' v)
        \<or> (\<exists>xs v. get d key fb = Inr (JArr xs) \<and> e = invalid_value rt d key ''object'' v))
   \<and> (is_object (data d) \<and> getObject rt d key fb = Inl e \<longrightarrow>
        (get d key fb = Inl e \<and> e = missing_key d key)
        \<or> (\<exists>v. get d key fb = Inr v \<and> e = invalid_value rt d key ''object'' v))
   \<and> (is_object (data d) \<and> getRawObject rt d key fb = Inl e \<longrightarrow>
        (get d key fb = Inl e \<and> e = missing_key d key)
        \<or> (\<exists>v. get d key fb = Inr v \<and> e = invalid_value rt d key ''object'' v))
   \<and> (is_object (data d) \<and> getStringOptional rt d key = Inl e \<longrightarrow>
        (\<exists>v. get d key None = Inr v \<and> e = invalid_value rt d key ''string'' v))
   \<and> (is_object (data d) \<and> getNumberOptional rt d key = Inl e \<longrightarrow>
        (\<exists>v. e = invalid_value rt d key ''number'' v
              \<and> (get d key None = Inr v
                   \<or> (\<exists>s. get d key None = Inr (JStr s)
                         \<and> (v = JNum (parseFloat rt s) \<or> v = JNum (parseInt rt s))))))
   \<and> (is_object (data d) \<and> getDateOptional rt d key = Inl e \<longrightarrow>
        (\<exists>v. get d key None = Inr v \<and> e = invalid_value rt d key ''date'' v))
   \<and> (is_object (data d) \<longrightarrow> getBooleanOptional d key \<noteq> Inl e)"
proof -
  have messages:
    "\<exists>m. missing_key d key = ReferenceError m \<and> sublist key m \<and> sublist (name d) m"
    "\<exists>m. invalid_value rt d key T v = TypeError m
         \<and> sublist key m \<and> sublist (name d) m \<and> sublist T m \<and> sublist (inspect rt v) m"
    by (rule missing_key_mentions, rule invalid_value_mentions)
  show ?thesis
    apply (rule conjI, rule messages)
    apply (rule conjI, rule messages)
    apply (rule conjI, blast dest: getString_fails)
    apply (rule conjI, blast dest: getNumber_fails)
    apply (rule conjI, blast dest: getBoolean_fails_lookup)
    apply (rule conjI, blast dest: getDate_fails)
    apply (rule conjI, blast dest: getArray_fails)
    apply (rule conjI, blast dest: getObjectArray_fails)
    apply (rule conjI, blast dest: getObject_fails)
    apply (rule conjI, blast dest: getRawObject_fails)
    apply (rule conjI, blast dest: optional_fails(1))
    apply (rule conjI, blast dest: optional_fails(2))
    apply (rule conjI, blast dest: optional_fails(3))
    apply (blast dest: optional_fails(4))
    done
qed

theorem error_messages_witness:
  "is_object (data \<lparr>name = ''cfg'', data = JObj [(''b'', JBool True)]\<rparr>)
   \<and> getString sample_runtime \<lparr>name = ''cfg'', data = JObj [(''b'', JBool True)]\<rparr> ''b'' None
       = Inl (TypeError ''Invalid value for b in cfg (expected string, got: true)'')
   \<and> get \<lparr>name = ''cfg'', data = JObj [(''b'', JBool True)]\<rparr> ''b'' None
       = Inr (JBool True)
   \<and> invalid_value sample_runtime \<lparr>name = ''cfg'', data = JObj [(''b'', JBool True)]\<rparr>
        ''b'' ''string'' (JBool True)
       = TypeError ''Invalid value for b in cfg (expected string, got: true)''
   \<and> sublist ''b'' ''Invalid value for b in cfg (expected string, got: true)''
   \<and> sublist ''cfg'' ''Invalid value for b in cfg (expected string, got: true)''
   \<and> sublist ''string'' ''Invalid value for b in cfg (expected string, got: true)''
   \<and> sublist ''true'' ''Invalid value for b in cfg (expected string, got: true)''
   \<and> getDate sample_runtime \<lparr>name = ''cfg'', data = JObj [(''b'', JBool True)]\<rparr> ''k'' None
       = Inl (ReferenceError ''Missing key k in cfg'')
   \<and> get \<lparr>name = ''cfg'', data = JObj [(''b'', JBool True)]\<rparr> ''k'' None
       = Inl (ReferenceError ''Missing key k in cfg'')
   \<and> sublist ''k'' ''Missing key k in cfg''
   \<and> sublist ''cfg'' ''Missing key k in cfg''"
proof -
  let ?d = "\<lparr>name = ''cfg'', data = JObj [(''b'', JBool True)]\<rparr>"
  have o: "is_object (data ?d)"
    by (simp add: is_object_def)
  have s: "getString sample_runtime ?d ''b'' None
      = Inl (TypeError ''Invalid value for b in cfg (expected string, got: true)'')"
    by (simp add: getString_def get_def has_def invalid_value_def sample_runtime_def)
  have t: "getDate sample_runtime ?d ''k'' None = Inl (ReferenceError ''Missing key k in cfg'')"
    by (simp add: getDate_def get_def has_def missing_key_def)
  show ?thesis
    using
      error_messages [where d = ?d and key = "''b''" and fb = None and rt = sample_runtime
        and T = "''string''" and v = "JBool True"
        and e = "TypeError ''Invalid value for b in cfg (expected string, got: true)''"]
      error_messages [where d = ?d and key = "''k''" and fb = None and rt = sample_runtime
        and T = "''date''" and v = "JBool True"
        and e = "ReferenceError ''Missing key k in cfg''"]
      o s t
    by (simp add: invalid_value_def missing_key_def sample_runtime_def get_def has_def)
qed

text \<open>
  C7 as stated fails: the message of a missing key does not contain the expected type
  name.
\<close>

theorem missing_key_message_counterexample:
  "getString sample_runtime \<lparr>name = ''root'', data = JObj []\<rparr> ''k'' None
     = Inl (ReferenceError ''Missing key k in root'')
   \<and> \<not> sublist ''string'' ''Missing key k in root''"
proof -
  have "getString sample_runtime \<lparr>name = ''root'', data = JObj []\<rparr> ''k'' None
     = Inl (ReferenceError ''Missing key k in root'')"
    by (simp add: getString_def get_def has_def missing_key_def)
  moreover have "\<not> sublist ''string'' ''Missing key k in root''"
    by code_simp
  ultimately show ?thesis
    by simp
qed

end
